theory Spec2Isabelle
  imports Complex_Main "HOL-Library.Log_Nat"
begin

section \<open>The Go values the chaincode computes with\<close>

subsection \<open>float64\<close>

text \<open>
  Go's \<^verbatim>\<open>float64\<close> is the IEEE-754 binary64 format. \<open>Finite neg m e\<close> stands for
  \<open>(-1)^neg * m * 2^e\<close>; the operations below return the triple with an odd mantissa
  (zero is \<open>Finite neg 0 0\<close>), and depend on the numbers only. Arithmetic rounds to
  nearest, ties to even, and overflows to an infinity, as the Go specification requires.
\<close>

datatype float64 = Finite bool int int | Infinity bool | NaN

text \<open>\<open>rne n k\<close>: \<open>n / 2^k\<close> rounded to the nearest integer, ties to the even one.\<close>

definition rne :: "int \<Rightarrow> nat \<Rightarrow> int" where
  "rne n k =
     (let q = n div 2 ^ k; r = n mod 2 ^ k
      in if 2 * r > 2 ^ k \<or> (2 * r = 2 ^ k \<and> odd q) then q + 1 else q)"

text \<open>The triple with an odd mantissa, or zero: one triple for each number.\<close>

function norm_odd :: "int \<Rightarrow> int \<Rightarrow> int \<times> int" where
  "norm_odd m e = (if m \<noteq> 0 \<and> even m then norm_odd (m div 2) (e + 1) else (m, e))"
  by pat_completeness auto
termination
  by (relation "measure (\<lambda>(m, e). nat \<bar>m\<bar>)") auto

declare norm_odd.simps [simp del]

definition reduced :: "bool \<Rightarrow> int \<Rightarrow> int \<Rightarrow> float64" where
  "reduced neg m e = (if m = 0 then Finite neg 0 0 else case norm_odd m e of (m', e') \<Rightarrow> Finite neg m' e')"

text \<open>
  The exact number \<open>m * 2^e\<close> with \<open>m > 0\<close> and \<open>e \<ge> -1074\<close> (a sum or difference of
  two doubles is of this form) rounded to 53 significant bits.
\<close>

definition round_to_float64 :: "bool \<Rightarrow> int \<Rightarrow> int \<Rightarrow> float64" where
  "round_to_float64 neg m e =
     (let k = nat (bitlen m - 53); m' = rne m k; e' = e + int k
      in if bitlen m' + e' > 1024 then Infinity neg else reduced neg m' e')"

text \<open>
  The exact rational \<open>num / den\<close> (\<open>num \<ge> 0\<close>, \<open>den > 0\<close>) rounded to the nearest
  double: the binary exponent \<open>k\<close> is the one that leaves a 53-bit quotient, or \<open>-1074\<close>
  in the subnormal range. \<open>None\<close> is overflow.
\<close>

definition round_rat_to_float64 :: "bool \<Rightarrow> int \<Rightarrow> int \<Rightarrow> float64 option" where
  "round_rat_to_float64 neg num den =
     (if num = 0 then Some (Finite neg 0 0)
      else
        let k0 = bitlen num - bitlen den - 53;
            q0 = (if k0 \<ge> 0 then num div (den * 2 ^ nat k0) else (num * 2 ^ nat (- k0)) div den);
            k1 = (if q0 \<ge> 2 ^ 53 then k0 + 1 else k0);
            k = max k1 (- 1074);
            n' = (if k \<ge> 0 then num else num * 2 ^ nat (- k));
            d' = (if k \<ge> 0 then den * 2 ^ nat k else den);
            q = n' div d';
            r = n' mod d';
            m = (if 2 * r > d' \<or> (2 * r = d' \<and> odd q) then q + 1 else q)
        in if bitlen m + k > 1024 then None else Some (reduced neg m k))"

text \<open>The signed integer \<open>\<plusminus> m * 2^(e - e0)\<close>, for \<open>e0 \<le> e\<close>.\<close>

definition aligned :: "bool \<Rightarrow> int \<Rightarrow> int \<Rightarrow> int \<Rightarrow> int" where
  "aligned neg m e e0 = (if neg then - 1 else 1) * m * 2 ^ nat (e - e0)"

text \<open>Go's \<^verbatim>\<open>a + b\<close> on float64.\<close>

fun fadd :: "float64 \<Rightarrow> float64 \<Rightarrow> float64" where
  "fadd NaN _ = NaN"
| "fadd _ NaN = NaN"
| "fadd (Infinity s) (Infinity t) = (if s = t then Infinity s else NaN)"
| "fadd (Infinity s) (Finite _ _ _) = Infinity s"
| "fadd (Finite _ _ _) (Infinity t) = Infinity t"
| "fadd (Finite s1 m1 e1) (Finite s2 m2 e2) =
     (let e0 = min e1 e2; d = aligned s1 m1 e1 e0 + aligned s2 m2 e2 e0
      in if d = 0 then Finite (s1 \<and> s2) 0 0
         else round_to_float64 (d < 0) \<bar>d\<bar> e0)"

fun fneg :: "float64 \<Rightarrow> float64" where
  "fneg (Finite s m e) = Finite (\<not> s) m e"
| "fneg (Infinity s) = Infinity (\<not> s)"
| "fneg NaN = NaN"

text \<open>Go's \<^verbatim>\<open>a - b\<close> on float64.\<close>

definition fsub :: "float64 \<Rightarrow> float64 \<Rightarrow> float64" where
  "fsub a b = fadd a (fneg b)"

text \<open>Go's \<^verbatim>\<open>a < b\<close> on float64: false as soon as one side is NaN.\<close>

fun fless :: "float64 \<Rightarrow> float64 \<Rightarrow> bool" where
  "fless NaN _ = False"
| "fless _ NaN = False"
| "fless (Infinity s) (Infinity t) = (s \<and> \<not> t)"
| "fless (Infinity s) (Finite _ _ _) = s"
| "fless (Finite _ _ _) (Infinity t) = (\<not> t)"
| "fless (Finite s1 m1 e1) (Finite s2 m2 e2) =
     (let e0 = min e1 e2 in aligned s1 m1 e1 e0 < aligned s2 m2 e2 e0)"

definition fzero :: float64 where
  "fzero = Finite False 0 0"

text \<open>The real number a reduced double stands for.\<close>

fun valof :: "float64 \<Rightarrow> real" where
  "valof (Finite s m e) = (if s then - 1 else 1) * real_of_int m * 2 powr (real_of_int e)"
| "valof _ = 0"

fun is_finite :: "float64 \<Rightarrow> bool" where
  "is_finite (Finite _ _ _) = True"
| "is_finite _ = False"

subsection \<open>strconv.ParseFloat and strconv.FormatFloat\<close>

text \<open>
  The two functions of Go's \<^verbatim>\<open>strconv\<close> package the chaincode calls, after the
  package's documentation: \<^verbatim>\<open>ParseFloat(s, 64)\<close> accepts an optionally signed
  decimal number with an optional fraction and an optional decimal exponent, and the
  words \<^verbatim>\<open>inf\<close>, \<^verbatim>\<open>infinity\<close> and \<^verbatim>\<open>nan\<close> in any case; it returns the nearest
  double, or an error when the text is not such a number or the number is out of range.
  \<^verbatim>\<open>FormatFloat(f, 'E', -1, 64)\<close> prints the shortest decimal that \<^verbatim>\<open>ParseFloat\<close>
  reads back as \<open>f\<close>, as \<^verbatim>\<open>d.dddE+xx\<close>. This is the decimal syntax of the Go
  releases the shim was written for; later releases read hexadecimal numbers and
  underscores between digits as well.
\<close>

datatype strconv_error = ErrSyntax | ErrRange

definition is_digit :: "char \<Rightarrow> bool" where
  "is_digit c = (let n = (of_char c :: nat) in 48 \<le> n \<and> n \<le> 57)"

definition digit_val :: "char \<Rightarrow> int" where
  "digit_val c = of_char c - 48"

definition digit_char :: "int \<Rightarrow> char" where
  "digit_char d = char_of (48 + d)"

definition lower :: "char \<Rightarrow> char" where
  "lower c = (let n = (of_char c :: nat) in if 65 \<le> n \<and> n \<le> 90 then char_of (n + 32) else c)"

definition int_of_digits :: "string \<Rightarrow> int" where
  "int_of_digits ds = foldl (\<lambda>a c. 10 * a + digit_val c) 0 ds"

definition special :: "string \<Rightarrow> float64 option" where
  "special s =
     (let l = map lower s
      in if l = ''+inf'' \<or> l = ''+infinity'' \<or> l = ''inf'' \<or> l = ''infinity''
         then Some (Infinity False)
         else if l = ''-inf'' \<or> l = ''-infinity'' then Some (Infinity True)
         else if l = ''nan'' then Some NaN
         else None)"

text \<open>The exponent part: nothing, or \<^verbatim>\<open>e\<close>, a sign and at least one digit, up to the end.\<close>

definition read_exponent :: "string \<Rightarrow> int option" where
  "read_exponent s =
     (case s of
        [] \<Rightarrow> Some 0
      | c # t \<Rightarrow>
          if c = CHR ''e'' \<or> c = CHR ''E'' then
            (let esign = (case t of [] \<Rightarrow> 1 | d # _ \<Rightarrow> if d = CHR ''-'' then - 1 else (1::int));
                 t1 = (case t of [] \<Rightarrow> []
                       | d # u \<Rightarrow> if d = CHR ''+'' \<or> d = CHR ''-'' then u else t)
             in if t1 = [] \<or> \<not> list_all is_digit t1 then None
                else Some (esign *
                  foldl (\<lambda>e d. if e < 10000 then e * 10 + digit_val d else e) 0 t1))
          else None)"

text \<open>Sign, digits with at most one point and at least one digit, exponent: the sign, the digits as a number and the power of ten.\<close>

definition read_decimal :: "string \<Rightarrow> (bool \<times> int \<times> int) option" where
  "read_decimal s =
     (let neg = (case s of [] \<Rightarrow> False | c # _ \<Rightarrow> c = CHR ''-'');
          s1 = (case s of [] \<Rightarrow> [] | c # t \<Rightarrow> if c = CHR ''+'' \<or> c = CHR ''-'' then t else s);
          ip = takeWhile is_digit s1;
          s2 = dropWhile is_digit s1;
          sawdot = (case s2 of [] \<Rightarrow> False | c # _ \<Rightarrow> c = CHR ''.'');
          fp = (if sawdot then takeWhile is_digit (tl s2) else []);
          s3 = (if sawdot then dropWhile is_digit (tl s2) else s2)
      in if ip = [] \<and> fp = [] then None
         else case read_exponent s3 of
                None \<Rightarrow> None
              | Some ex \<Rightarrow> Some (neg, int_of_digits (ip @ fp), ex - int (length fp)))"

text \<open>The decimal \<open>c * 10^p\<close> as a double.\<close>

definition decimal_to_float64 :: "bool \<Rightarrow> int \<Rightarrow> int \<Rightarrow> float64 option" where
  "decimal_to_float64 neg c p =
     (if p \<ge> 0 then round_rat_to_float64 neg (c * 10 ^ nat p) 1
      else round_rat_to_float64 neg c (10 ^ nat (- p)))"

definition ParseFloat :: "string \<Rightarrow> strconv_error + float64" where
  "ParseFloat s =
     (case special s of
        Some f \<Rightarrow> Inr f
      | None \<Rightarrow>
          (case read_decimal s of
             None \<Rightarrow> Inl ErrSyntax
           | Some (neg, mant, dexp) \<Rightarrow>
               (case decimal_to_float64 neg mant dexp of
                  None \<Rightarrow> Inl ErrRange
                | Some f \<Rightarrow> Inr f)))"

function digits_of :: "int \<Rightarrow> int list" where
  "digits_of n = (if n < 10 then [n] else digits_of (n div 10) @ [n mod 10])"
  by pat_completeness auto
termination
  by (relation "measure nat") auto

declare digits_of.simps [simp del]

definition show_int :: "int \<Rightarrow> string" where
  "show_int n = (if n < 0 then CHR ''-'' # map digit_char (digits_of (- n)) else map digit_char (digits_of n))"

definition roundtrips :: "int \<Rightarrow> int \<Rightarrow> int \<Rightarrow> int \<Rightarrow> bool" where
  "roundtrips c p m e = (decimal_to_float64 False c p = Some (reduced False m e))"

text \<open>
  The shortest digits of \<open>m * 2^e\<close> (\<open>m > 0\<close>): the number is \<open>N * 10^p0\<close> exactly; with
  \<open>nd\<close> digits kept, the candidates are the digits cut off and the digits cut off plus
  one; the first \<open>nd\<close> with a candidate that reads back wins, the nearer candidate when
  both do. The result is the digits as a number and the power of ten of its last digit.
\<close>

definition shortest_digits :: "int \<Rightarrow> int \<Rightarrow> int \<times> int" where
  "shortest_digits m e =
     (let N = (if e \<ge> 0 then m * 2 ^ nat e else m * 5 ^ nat (- e));
          p0 = min e 0;
          L = length (digits_of N);
          cand = (\<lambda>nd. N div 10 ^ (L - nd));
          pw = (\<lambda>nd. p0 + int (L - nd));
          okdown = (\<lambda>nd. roundtrips (cand nd) (pw nd) m e);
          okup = (\<lambda>nd. roundtrips (cand nd + 1) (pw nd) m e)
      in case find (\<lambda>nd. okdown nd \<or> okup nd) [1..<Suc L] of
           None \<Rightarrow> (N, p0)
         | Some nd \<Rightarrow>
             (let u = 10 ^ (L - nd); r = N mod u; c = cand nd
              in if okdown nd \<and> okup nd
                 then (if 2 * r > u \<or> (2 * r = u \<and> odd c) then (c + 1, pw nd) else (c, pw nd))
                 else if okdown nd then (c, pw nd) else (c + 1, pw nd)))"

fun strip_zeros :: "int list \<Rightarrow> int list" where
  "strip_zeros [] = []"
| "strip_zeros (d # ds) =
     (case strip_zeros ds of [] \<Rightarrow> (if d = 0 then [] else [d]) | r \<Rightarrow> d # r)"

definition fmtE :: "bool \<Rightarrow> int list \<Rightarrow> int \<Rightarrow> string" where
  "fmtE neg ds x =
     (if neg then ''-'' else [])
     @ (case ds of [] \<Rightarrow> ''0'' | d # r \<Rightarrow>
          digit_char d # (if r = [] then [] else CHR ''.'' # map digit_char r))
     @ ''E'' @ (if x < 0 then ''-'' else ''+'')
     @ (if \<bar>x\<bar> < 10 then ''0'' else []) @ show_int \<bar>x\<bar>"

definition FormatFloat :: "float64 \<Rightarrow> string" where
  "FormatFloat f =
     (case f of
        NaN \<Rightarrow> ''NaN''
      | Infinity neg \<Rightarrow> (if neg then ''-Inf'' else ''+Inf'')
      | Finite neg m e \<Rightarrow>
          if m = 0 then fmtE neg [] 0
          else (let (c, p) = shortest_digits m e; ds = digits_of c
                in fmtE neg (strip_zeros ds) (p + int (length ds) - 1)))"

subsection \<open>encoding/json\<close>

text \<open>
  \<^verbatim>\<open>json.Unmarshal\<close> first checks the whole text with its scanner, a machine that
  reads one byte at a time and keeps a stack of the objects and arrays it is inside;
  only a text the scanner accepts is decoded. The machine below is that scanner, state
  for state, and builds the value it has read on the side: each stack entry holds the
  members read so far, and \<open>tok\<close> the bytes of the string or number being read.
\<close>

datatype json =
    JNull | JBool bool | JNumber string | JString string
  | JArray "json list" | JObject "(string \<times> json) list"

datatype step =
    stateBeginValue | stateBeginValueOrEmpty | stateBeginStringOrEmpty | stateBeginString
  | stateEndValue | stateEndTop
  | stateInString | stateInStringEsc | stateInStringEscU | stateInStringEscU1
  | stateInStringEscU12 | stateInStringEscU123
  | stateNeg | state1 | state0 | stateDot | stateDot0 | stateE | stateESign | stateE0
  | stateT | stateTr | stateTru | stateF | stateFa | stateFal | stateFals
  | stateN | stateNu | stateNul

text \<open>
  \<open>Obj True\<close> is the scanner's \<^verbatim>\<open>parseObjectKey\<close> (a key is awaited, or read and
  waiting for its colon), \<open>Obj False\<close> its \<^verbatim>\<open>parseObjectValue\<close>, \<open>Arr\<close> its
  \<^verbatim>\<open>parseArrayValue\<close>. An object entry holds the members so far and the last key.
\<close>

datatype frame = Obj bool "(string \<times> json) list" string | Arr "json list"

datatype scanner = ScanError | Scan step "frame list" string "json option"

definition isSpace :: "char \<Rightarrow> bool" where
  "isSpace c = (c = CHR 0x20 \<or> c = CHR 0x09 \<or> c = CHR 0x0D \<or> c = CHR 0x0A)"

definition is_hex :: "char \<Rightarrow> bool" where
  "is_hex c =
     (let n = (of_char c :: nat)
      in (48 \<le> n \<and> n \<le> 57) \<or> (97 \<le> n \<and> n \<le> 102) \<or> (65 \<le> n \<and> n \<le> 70))"

text \<open>A finished value goes into the innermost open object or array, or is the result.\<close>

fun attach :: "json \<Rightarrow> frame list \<Rightarrow> json option \<Rightarrow> frame list \<times> json option" where
  "attach v [] res = ([], Some v)"
| "attach v (Obj True fs k # st) res =
     (case v of JString s \<Rightarrow> (Obj True fs s # st, res) | _ \<Rightarrow> (Obj True fs k # st, res))"
| "attach v (Obj False fs k # st) res = (Obj False (fs @ [(k, v)]) k # st, res)"
| "attach v (Arr es # st) res = (Arr (es @ [v]) # st, res)"

definition popParseState :: "json \<Rightarrow> frame list \<Rightarrow> json option \<Rightarrow> scanner" where
  "popParseState v rest res =
     (case attach v rest res of
        (st', res') \<Rightarrow> if st' = [] then Scan stateEndTop [] [] res' else Scan stateEndValue st' [] res')"

definition scanEndValue :: "frame list \<Rightarrow> json option \<Rightarrow> char \<Rightarrow> scanner" where
  "scanEndValue st res c =
     (case st of
        [] \<Rightarrow> if isSpace c then Scan stateEndTop [] [] res else ScanError
      | fr # rest \<Rightarrow>
          if isSpace c then Scan stateEndValue st [] res
          else (case fr of
              Obj True fs k \<Rightarrow>
                if c = CHR '':'' then Scan stateBeginValue (Obj False fs k # rest) [] res
                else ScanError
            | Obj False fs k \<Rightarrow>
                if c = CHR '','' then Scan stateBeginString (Obj True fs k # rest) [] res
                else if c = CHR ''}'' then popParseState (JObject fs) rest res
                else ScanError
            | Arr es \<Rightarrow>
                if c = CHR '','' then Scan stateBeginValue st [] res
                else if c = CHR '']'' then popParseState (JArray es) rest res
                else ScanError))"

definition scanBeginValue :: "frame list \<Rightarrow> json option \<Rightarrow> char \<Rightarrow> scanner" where
  "scanBeginValue st res c =
     (if isSpace c then Scan stateBeginValue st [] res
      else if c = CHR ''{'' then Scan stateBeginStringOrEmpty (Obj True [] [] # st) [] res
      else if c = CHR ''['' then Scan stateBeginValueOrEmpty (Arr [] # st) [] res
      else if c = CHR 0x22 then Scan stateInString st [] res
      else if c = CHR ''-'' then Scan stateNeg st [c] res
      else if c = CHR ''0'' then Scan state0 st [c] res
      else if c = CHR ''t'' then Scan stateT st [] res
      else if c = CHR ''f'' then Scan stateF st [] res
      else if c = CHR ''n'' then Scan stateN st [] res
      else if is_digit c then Scan state1 st [c] res
      else ScanError)"

definition scanBeginString :: "frame list \<Rightarrow> json option \<Rightarrow> char \<Rightarrow> scanner" where
  "scanBeginString st res c =
     (if isSpace c then Scan stateBeginString st [] res
      else if c = CHR 0x22 then Scan stateInString st [] res
      else ScanError)"

text \<open>The end of a number is seen at the byte after it, which \<^verbatim>\<open>stateEndValue\<close> then reads.\<close>

definition scanEndNumber :: "frame list \<Rightarrow> string \<Rightarrow> json option \<Rightarrow> char \<Rightarrow> scanner" where
  "scanEndNumber st tok res c =
     (case attach (JNumber tok) st res of (st', res') \<Rightarrow> scanEndValue st' res' c)"

definition scanState0 :: "frame list \<Rightarrow> string \<Rightarrow> json option \<Rightarrow> char \<Rightarrow> scanner" where
  "scanState0 st tok res c =
     (if c = CHR ''.'' then Scan stateDot st (tok @ [c]) res
      else if c = CHR ''e'' \<or> c = CHR ''E'' then Scan stateE st (tok @ [c]) res
      else scanEndNumber st tok res c)"

definition scanESign :: "frame list \<Rightarrow> string \<Rightarrow> json option \<Rightarrow> char \<Rightarrow> scanner" where
  "scanESign st tok res c =
     (if is_digit c then Scan stateE0 st (tok @ [c]) res else ScanError)"

definition scanLiteral :: "json \<Rightarrow> frame list \<Rightarrow> json option \<Rightarrow> scanner" where
  "scanLiteral v st res = (case attach v st res of (st', res') \<Rightarrow> Scan stateEndValue st' [] res')"

fun scan_step :: "scanner \<Rightarrow> char \<Rightarrow> scanner" where
  "scan_step ScanError c = ScanError"
| "scan_step (Scan stp st tok res) c =
     (case stp of
        stateBeginValue \<Rightarrow> scanBeginValue st res c
      | stateBeginValueOrEmpty \<Rightarrow>
          if isSpace c then Scan stateBeginValueOrEmpty st [] res
          else if c = CHR '']'' then scanEndValue st res c
          else scanBeginValue st res c
      | stateBeginStringOrEmpty \<Rightarrow>
          if isSpace c then Scan stateBeginStringOrEmpty st [] res
          else if c = CHR ''}'' then
            (case st of
               Obj _ fs k # rest \<Rightarrow> scanEndValue (Obj False fs k # rest) res c
             | _ \<Rightarrow> ScanError)
          else scanBeginString st res c
      | stateBeginString \<Rightarrow> scanBeginString st res c
      | stateEndValue \<Rightarrow> scanEndValue st res c
      | stateEndTop \<Rightarrow> if isSpace c then Scan stateEndTop st tok res else ScanError
      | stateInString \<Rightarrow>
          if c = CHR 0x22 then scanLiteral (JString tok) st res
          else if c = CHR 0x5C then Scan stateInStringEsc st (tok @ [c]) res
          else if (of_char c :: nat) < 32 then ScanError
          else Scan stateInString st (tok @ [c]) res
      | stateInStringEsc \<Rightarrow>
          if c = CHR ''b'' \<or> c = CHR ''f'' \<or> c = CHR ''n'' \<or> c = CHR ''r'' \<or> c = CHR ''t''
             \<or> c = CHR 0x5C \<or> c = CHR ''/'' \<or> c = CHR 0x22
          then Scan stateInString st (tok @ [c]) res
          else if c = CHR ''u'' then Scan stateInStringEscU st (tok @ [c]) res
          else ScanError
      | stateInStringEscU \<Rightarrow>
          if is_hex c then Scan stateInStringEscU1 st (tok @ [c]) res else ScanError
      | stateInStringEscU1 \<Rightarrow>
          if is_hex c then Scan stateInStringEscU12 st (tok @ [c]) res else ScanError
      | stateInStringEscU12 \<Rightarrow>
          if is_hex c then Scan stateInStringEscU123 st (tok @ [c]) res else ScanError
      | stateInStringEscU123 \<Rightarrow>
          if is_hex c then Scan stateInString st (tok @ [c]) res else ScanError
      | stateNeg \<Rightarrow>
          if c = CHR ''0'' then Scan state0 st (tok @ [c]) res
          else if is_digit c then Scan state1 st (tok @ [c]) res
          else ScanError
      | state1 \<Rightarrow>
          if is_digit c then Scan state1 st (tok @ [c]) res else scanState0 st tok res c
      | state0 \<Rightarrow> scanState0 st tok res c
      | stateDot \<Rightarrow> if is_digit c then Scan stateDot0 st (tok @ [c]) res else ScanError
      | stateDot0 \<Rightarrow>
          if is_digit c then Scan stateDot0 st (tok @ [c]) res
          else if c = CHR ''e'' \<or> c = CHR ''E'' then Scan stateE st (tok @ [c]) res
          else scanEndNumber st tok res c
      | stateE \<Rightarrow>
          if c = CHR ''+'' \<or> c = CHR ''-'' then Scan stateESign st (tok @ [c]) res
          else scanESign st tok res c
      | stateESign \<Rightarrow> scanESign st tok res c
      | stateE0 \<Rightarrow>
          if is_digit c then Scan stateE0 st (tok @ [c]) res else scanEndNumber st tok res c
      | stateT \<Rightarrow> if c = CHR ''r'' then Scan stateTr st [] res else ScanError
      | stateTr \<Rightarrow> if c = CHR ''u'' then Scan stateTru st [] res else ScanError
      | stateTru \<Rightarrow> if c = CHR ''e'' then scanLiteral (JBool True) st res else ScanError
      | stateF \<Rightarrow> if c = CHR ''a'' then Scan stateFa st [] res else ScanError
      | stateFa \<Rightarrow> if c = CHR ''l'' then Scan stateFal st [] res else ScanError
      | stateFal \<Rightarrow> if c = CHR ''s'' then Scan stateFals st [] res else ScanError
      | stateFals \<Rightarrow> if c = CHR ''e'' then scanLiteral (JBool False) st res else ScanError
      | stateN \<Rightarrow> if c = CHR ''u'' then Scan stateNu st [] res else ScanError
      | stateNu \<Rightarrow> if c = CHR ''l'' then Scan stateNul st [] res else ScanError
      | stateNul \<Rightarrow> if c = CHR ''l'' then scanLiteral JNull st res else ScanError)"

text \<open>
  The end of the text: accepted when the top-level value is complete, if need be after
  one more space (which ends a number). \<open>None\<close> is the syntax error.
\<close>

definition scan_eof :: "scanner \<Rightarrow> json option" where
  "scan_eof sc =
     (case sc of
        ScanError \<Rightarrow> None
      | Scan stp st tok res \<Rightarrow>
          if stp = stateEndTop then res
          else (case scan_step sc (CHR 0x20) of
                  Scan stp' st' tok' res' \<Rightarrow> if stp' = stateEndTop then res' else None
                | ScanError \<Rightarrow> None))"

definition json_scan :: "string \<Rightarrow> json option" where
  "json_scan data = scan_eof (foldl scan_step (Scan stateBeginValue [] [] None) data)"

text \<open>
  Strings. \<open>unquote\<close> turns the bytes between the quotes of a scanned string into the
  string they denote: escapes are replaced, \<^verbatim>\<open>\u\<close> escapes become UTF-8 (a surrogate
  pair one character, a lone surrogate U+FFFD), and a byte that is not part of valid
  UTF-8 becomes U+FFFD.
\<close>

definition hex_val :: "char \<Rightarrow> nat" where
  "hex_val c =
     (let n = (of_char c :: nat)
      in if n \<le> 57 then n - 48 else if 97 \<le> n then n - 87 else n - 55)"

definition getu4 :: "string \<Rightarrow> nat" where
  "getu4 hs = foldl (\<lambda>a c. 16 * a + hex_val c) 0 hs"

definition is_u_escape :: "string \<Rightarrow> bool" where
  "is_u_escape s =
     (length s \<ge> 6 \<and> s ! 0 = CHR 0x5C \<and> s ! 1 = CHR ''u'' \<and> list_all is_hex (take 4 (drop 2 s)))"

definition replacement :: string where
  "replacement = [CHR 0xEF, CHR 0xBF, CHR 0xBD]"

definition utf8_encode :: "nat \<Rightarrow> string" where
  "utf8_encode r =
     (if r < 0x80 then [char_of r]
      else if r < 0x800 then [char_of (0xC0 + r div 64), char_of (0x80 + r mod 64)]
      else if 0xD800 \<le> r \<and> r < 0xE000 then replacement
      else if r < 0x10000 then
        [char_of (0xE0 + r div 4096), char_of (0x80 + r div 64 mod 64), char_of (0x80 + r mod 64)]
      else if r < 0x110000 then
        [char_of (0xF0 + r div 262144), char_of (0x80 + r div 4096 mod 64),
         char_of (0x80 + r div 64 mod 64), char_of (0x80 + r mod 64)]
      else replacement)"

definition is_cont :: "string \<Rightarrow> nat \<Rightarrow> nat \<Rightarrow> nat \<Rightarrow> bool" where
  "is_cont s i lo hi = (i < length s \<and> lo \<le> (of_char (s ! i) :: nat) \<and> (of_char (s ! i) :: nat) \<le> hi)"

text \<open>The number of bytes of the UTF-8 character at the head of \<open>s\<close>; 0 when there is none.\<close>

definition utf8_size :: "string \<Rightarrow> nat" where
  "utf8_size s =
     (case s of
        [] \<Rightarrow> 0
      | c # _ \<Rightarrow>
         (let b = (of_char c :: nat)
          in if b < 0x80 then 1
             else if 0xC2 \<le> b \<and> b \<le> 0xDF then (if is_cont s 1 0x80 0xBF then 2 else 0)
             else if b = 0xE0 then (if is_cont s 1 0xA0 0xBF \<and> is_cont s 2 0x80 0xBF then 3 else 0)
             else if b = 0xED then (if is_cont s 1 0x80 0x9F \<and> is_cont s 2 0x80 0xBF then 3 else 0)
             else if 0xE1 \<le> b \<and> b \<le> 0xEF then
               (if is_cont s 1 0x80 0xBF \<and> is_cont s 2 0x80 0xBF then 3 else 0)
             else if b = 0xF0 then
               (if is_cont s 1 0x90 0xBF \<and> is_cont s 2 0x80 0xBF \<and> is_cont s 3 0x80 0xBF
                then 4 else 0)
             else if 0xF1 \<le> b \<and> b \<le> 0xF3 then
               (if is_cont s 1 0x80 0xBF \<and> is_cont s 2 0x80 0xBF \<and> is_cont s 3 0x80 0xBF
                then 4 else 0)
             else if b = 0xF4 then
               (if is_cont s 1 0x80 0x8F \<and> is_cont s 2 0x80 0xBF \<and> is_cont s 3 0x80 0xBF
                then 4 else 0)
             else 0))"

definition esc_char :: "char \<Rightarrow> char" where
  "esc_char e =
     (if e = CHR ''b'' then CHR 0x08 else if e = CHR ''f'' then CHR 0x0C
      else if e = CHR ''n'' then CHR 0x0A else if e = CHR ''r'' then CHR 0x0D
      else if e = CHR ''t'' then CHR 0x09 else e)"

function unquote :: "string \<Rightarrow> string" where
  "unquote [] = []"
| "unquote (c # cs) =
     (if c = CHR 0x5C then
        (case cs of
           [] \<Rightarrow> []
         | e # r \<Rightarrow>
             if e = CHR ''u'' then
               (let rr = getu4 (take 4 r); rest = drop 4 r
                in if 0xD800 \<le> rr \<and> rr < 0xE000 then
                     (let rr1 = getu4 (take 4 (drop 2 rest))
                      in if is_u_escape rest \<and> rr < 0xDC00 \<and> 0xDC00 \<le> rr1 \<and> rr1 < 0xE000
                         then utf8_encode ((rr - 0xD800) * 1024 + (rr1 - 0xDC00) + 0x10000)
                              @ unquote (drop 6 rest)
                         else replacement @ unquote rest)
                   else utf8_encode rr @ unquote rest)
             else esc_char e # unquote r)
      else if (of_char c :: nat) < 0x80 then c # unquote cs
      else (let n = utf8_size (c # cs)
            in if n = 0 then replacement @ unquote cs
               else take n (c # cs) @ unquote (drop (n - 1) cs)))"
  by pat_completeness auto
termination
  by (relation "measure length") auto

declare unquote.simps [simp del]

text \<open>
  \<open>quote\<close> is the string encoder of \<^verbatim>\<open>json.Marshal\<close>: the quote and the backslash
  are escaped, so are newline, carriage return and tab; other control bytes, \<^verbatim>\<open><\<close>,
  \<^verbatim>\<open>>\<close> and \<^verbatim>\<open>&\<close>, U+2028 and U+2029 are written as \<^verbatim>\<open>\u\<close> escapes, and a byte
  that is not part of valid UTF-8 as the escape of U+FFFD.
\<close>

definition hex_digit :: "nat \<Rightarrow> char" where
  "hex_digit n = (if n < 10 then char_of (48 + n) else char_of (87 + n))"

function quote_body :: "string \<Rightarrow> string" where
  "quote_body [] = []"
| "quote_body (c # cs) =
     (let b = (of_char c :: nat)
      in if b < 0x80 then
           (if 0x20 \<le> b \<and> c \<noteq> CHR 0x5C \<and> c \<noteq> CHR 0x22 \<and> c \<noteq> CHR ''<'' \<and> c \<noteq> CHR ''>''
               \<and> c \<noteq> CHR ''&''
            then c # quote_body cs
            else if c = CHR 0x5C \<or> c = CHR 0x22 then CHR 0x5C # c # quote_body cs
            else if c = CHR 0x0A then CHR 0x5C # CHR ''n'' # quote_body cs
            else if c = CHR 0x0D then CHR 0x5C # CHR ''r'' # quote_body cs
            else if c = CHR 0x09 then CHR 0x5C # CHR ''t'' # quote_body cs
            else CHR 0x5C # CHR ''u'' # CHR ''0'' # CHR ''0'' # hex_digit (b div 16)
                 # hex_digit (b mod 16) # quote_body cs)
         else (let n = utf8_size (c # cs)
               in if n = 0 then CHR 0x5C # ''ufffd'' @ quote_body cs
                  else if take 3 (c # cs) = [CHR 0xE2, CHR 0x80, CHR 0xA8]
                    then CHR 0x5C # ''u2028'' @ quote_body (drop 2 cs)
                  else if take 3 (c # cs) = [CHR 0xE2, CHR 0x80, CHR 0xA9]
                    then CHR 0x5C # ''u2029'' @ quote_body (drop 2 cs)
                  else take n (c # cs) @ quote_body (drop (n - 1) cs)))"
  by pat_completeness auto
termination
  by (relation "measure length") auto

declare quote_body.simps [simp del]

definition quote :: "string \<Rightarrow> string" where
  "quote s = CHR 0x22 # quote_body s @ [CHR 0x22]"

text \<open>
  An object key names a struct field when it equals the field's tag up to the case of
  ASCII letters, where the long s (U+017F) counts as \<^verbatim>\<open>s\<close> and the Kelvin sign
  (U+212A) as \<^verbatim>\<open>k\<close>. All tags of the chaincode's structs are lower-case letters.
\<close>

fun fold_key :: "string \<Rightarrow> string" where
  "fold_key (a # b # c # r) =
     (if a = CHR 0xE2 \<and> b = CHR 0x84 \<and> c = CHR 0xAA then CHR ''k'' # fold_key r
      else if a = CHR 0xC5 \<and> b = CHR 0xBF then CHR ''s'' # fold_key (c # r)
      else lower a # fold_key (b # c # r))"
| "fold_key [a, b] =
     (if a = CHR 0xC5 \<and> b = CHR 0xBF then ''s'' else lower a # fold_key [b])"
| "fold_key [a] = [lower a]"
| "fold_key [] = []"

datatype json_error = SyntaxError | UnmarshalTypeError

text \<open>
  A string field takes a JSON string; \<^verbatim>\<open>null\<close> leaves it as it is; any other value
  leaves it as it is and is reported as a type error once the whole object is read.
\<close>

definition decode_string :: "json \<Rightarrow> string \<Rightarrow> string \<times> bool" where
  "decode_string v old =
     (case v of JString raw \<Rightarrow> (unquote raw, False) | JNull \<Rightarrow> (old, False) | _ \<Rightarrow> (old, True))"

text \<open>Go's \<^verbatim>\<open>[]byte\<close> result of a ledger read: \<open>None\<close> is the nil slice.\<close>

definition bytes_of :: "string option \<Rightarrow> string" where
  "bytes_of b = (case b of None \<Rightarrow> [] | Some v \<Rightarrow> v)"

text \<open>
  Decoding an object into a struct of string fields: the members are taken in order, a
  json_member whose key names a field sets it, a later json_member with the same key overrides an
  earlier one, and members with other keys are skipped.
\<close>

definition string_field :: "(string \<times> json) list \<Rightarrow> string \<Rightarrow> string \<Rightarrow> string" where
  "string_field fs tag old =
     foldl (\<lambda>cur kv. if fold_key (unquote (fst kv)) = tag then fst (decode_string (snd kv) cur) else cur)
       old fs"

definition type_errors :: "(string \<times> json) list \<Rightarrow> string list \<Rightarrow> bool" where
  "type_errors fs tags =
     list_ex (\<lambda>kv. fold_key (unquote (fst kv)) \<in> set tags \<and> snd (decode_string (snd kv) [])) fs"

text \<open>
  A \<^verbatim>\<open>[]string\<close>: \<open>None\<close> is the nil slice, which \<^verbatim>\<open>json.Marshal\<close> writes as
  \<^verbatim>\<open>null\<close>. An array is decoded element by element into the slice, over the
  elements the slice already has.
\<close>

fun decode_elems :: "json list \<Rightarrow> string list \<Rightarrow> string list" where
  "decode_elems [] old = []"
| "decode_elems (e # es) [] = fst (decode_string e []) # decode_elems es []"
| "decode_elems (e # es) (x # xs) = fst (decode_string e x) # decode_elems es xs"

definition decode_strings :: "json \<Rightarrow> string list option \<Rightarrow> string list option \<times> bool" where
  "decode_strings v old =
     (case v of
        JArray es \<Rightarrow> (Some (decode_elems es (case old of None \<Rightarrow> [] | Some l \<Rightarrow> l)),
                      list_ex (\<lambda>e. snd (decode_string e [])) es)
      | JNull \<Rightarrow> (None, False)
      | _ \<Rightarrow> (old, True))"

fun join_commas :: "string list \<Rightarrow> string" where
  "join_commas [] = []"
| "join_commas [x] = x"
| "join_commas (x # y # r) = x @ '','' @ join_commas (y # r)"

definition encode_strings :: "string list option \<Rightarrow> string" where
  "encode_strings xs =
     (case xs of None \<Rightarrow> ''null'' | Some l \<Rightarrow> ''['' @ join_commas (map quote l) @ '']'')"

definition json_Unmarshal_strings ::
    "string \<Rightarrow> string list option \<Rightarrow> json_error option \<times> string list option" where
  "json_Unmarshal_strings data old =
     (case json_scan data of
        None \<Rightarrow> (Some SyntaxError, old)
      | Some v \<Rightarrow>
          (case decode_strings v old of
             (xs, e) \<Rightarrow> (if e then Some UnmarshalTypeError else None, xs)))"

definition append_go :: "string list option \<Rightarrow> string \<Rightarrow> string list option" where
  "append_go xs x = Some (case xs of None \<Rightarrow> [x] | Some l \<Rightarrow> l @ [x])"

section \<open>The ledger and the results of an operation\<close>

text \<open>
  The shim's stub is the ledger: a map from keys to byte strings. \<^verbatim>\<open>GetState\<close> of a
  key that was never written returns the nil slice. The ledger calls are taken to
  succeed, so the error returns that only follow a failed ledger call do not appear.
\<close>

type_synonym ledger = "string \<Rightarrow> string option"

definition GetState :: "ledger \<Rightarrow> string \<Rightarrow> string option" where
  "GetState stub key = stub key"

definition PutState :: "ledger \<Rightarrow> string \<Rightarrow> string \<Rightarrow> ledger" where
  "PutState stub key val = stub(key \<mapsto> val)"

text \<open>
  The errors the operations return, one constructor for each message:
  \<^item> \<open>IncorrectNumberOfArguments n\<close>: "Incorrect number of arguments. Expecting n";
  \<^item> \<open>EmptyArgument n\<close>: "1st / 2nd / 3rd argument must be a non-empty string";
  \<^item> \<open>NotNumeric n\<close>: "2nd / 3rd / 4rd argument must be a numeric string";
  \<^item> \<open>StrconvError e\<close>: the error of \<^verbatim>\<open>strconv.ParseFloat\<close>, returned as it is;
  \<^item> \<open>NotEnoughBalance a\<close>: a + " doesn't have enough balance to complete transaction";
  \<^item> \<open>AccountExists\<close>: "This account arleady exists";
  \<^item> \<open>InvalidJSON\<close>: "Invalid JSON object";
  \<^item> \<open>InvoiceExists\<close>: "Invoice already exists";
  \<^item> \<open>PermissionDenied_create_invoice r s\<close>: "Permission Denied. create_invoice. r !== s";
  \<^item> \<open>PermissionDenied_offer_trade r s\<close>: "Permission Denied. offer_trade. r !== s";
  \<^item> \<open>PermissionDenied_get_invoice_details\<close>: "Permission Denied. get_invoice_details";
  \<^item> \<open>CorruptInvoiceHolder\<close>: "Corrupt Invoice_Holder record";
  \<^item> \<open>ErrorRetrievingInvoice\<close>: "QUERY: Error retrieving invoice ...".
\<close>

datatype error =
    IncorrectNumberOfArguments nat
  | EmptyArgument nat
  | NotNumeric nat
  | StrconvError strconv_error
  | NotEnoughBalance string
  | AccountExists
  | InvalidJSON
  | InvoiceExists
  | PermissionDenied_create_invoice string string
  | PermissionDenied_offer_trade string string
  | PermissionDenied_get_invoice_details
  | CorruptInvoiceHolder
  | ErrorRetrievingInvoice

text \<open>
  An operation returns \<^verbatim>\<open>(bytes, nil)\<close> (\<open>Ok\<close>; \<open>None\<close> is nil bytes) or
  \<^verbatim>\<open>(nil, err)\<close> (\<open>Fail\<close>), or it panics: Go checks every index, and \<^verbatim>\<open>args[i]\<close> with
  \<^verbatim>\<open>i >= len(args)\<close> is a run-time panic.
\<close>

datatype result = Panic | Fail error | Ok "string option"

definition index :: "string list \<Rightarrow> nat \<Rightarrow> string option" where
  "index args i = (if i < length args then Some (args ! i) else None)"

section \<open>chaincode\_start.go, first program: balances stored as numbers\<close>

definition init_amount :: "ledger \<Rightarrow> string list \<Rightarrow> result \<times> ledger" where
  "init_amount stub args =
     (if length args \<noteq> 2 then (Fail (IncorrectNumberOfArguments 2), stub)
      else case index args 0 of None \<Rightarrow> (Panic, stub) | Some a0 \<Rightarrow>
        if length a0 \<le> 0 then (Fail (EmptyArgument 1), stub)
        else case index args 1 of None \<Rightarrow> (Panic, stub) | Some a1 \<Rightarrow>
          if length a1 \<le> 0 then (Fail (EmptyArgument 2), stub)
          else (let name = a0
                in case index args 2 of None \<Rightarrow> (Panic, stub) | Some a2 \<Rightarrow>
                  (case ParseFloat a2 of
                     Inl _ \<Rightarrow> (Fail (NotNumeric 2), stub)
                   | Inr amount \<Rightarrow>
                       (let amountStr = FormatFloat amount
                        in (Ok None, PutState stub name amountStr)))))"

definition transfer :: "ledger \<Rightarrow> string list \<Rightarrow> result \<times> ledger" where
  "transfer stub args =
     (if length args < 3 then (Fail (IncorrectNumberOfArguments 3), stub)
      else
        let userA = args ! 0; userB = args ! 1
        in case ParseFloat (args ! 2) of
             Inl _ \<Rightarrow> (Fail (NotNumeric 3), stub)
           | Inr amount \<Rightarrow>
              (let amountStrA = bytes_of (GetState stub userA);
                   amountStrB = bytes_of (GetState stub userB)
               in case ParseFloat amountStrA of
                    Inl e \<Rightarrow> (Fail (StrconvError e), stub)
                  | Inr amountA \<Rightarrow>
                     (case ParseFloat amountStrB of
                        Inl e \<Rightarrow> (Fail (StrconvError e), stub)
                      | Inr amountB \<Rightarrow>
                          if fless (fsub amountA amount) fzero
                          then (Fail (NotEnoughBalance (args ! 0)), stub)
                          else
                            (let newAmountA = fsub amountA amount;
                                 newAmountB = fadd amountB amount;
                                 newAmountStrA = FormatFloat newAmountA;
                                 newAmountStrB = FormatFloat newAmountB;
                                 stub1 = PutState stub (args ! 0) newAmountStrA;
                                 stub2 = PutState stub1 (args ! 0) newAmountStrB
                             in (Ok None, stub2)))))"

section \<open>The third program (unnamed part 0): the same operations, revised\<close>

definition init_amount_part_000 :: "ledger \<Rightarrow> string list \<Rightarrow> result \<times> ledger" where
  "init_amount_part_000 stub args =
     (if length args \<noteq> 2 then (Fail (IncorrectNumberOfArguments 2), stub)
      else case index args 0 of None \<Rightarrow> (Panic, stub) | Some a0 \<Rightarrow>
        if length a0 \<le> 0 then (Fail (EmptyArgument 1), stub)
        else case index args 1 of None \<Rightarrow> (Panic, stub) | Some a1 \<Rightarrow>
          if length a1 \<le> 0 then (Fail (EmptyArgument 2), stub)
          else (let name = a0
                in case ParseFloat a1 of
                     Inl _ \<Rightarrow> (Fail (NotNumeric 2), stub)
                   | Inr amount \<Rightarrow>
                       (let amountStr = FormatFloat amount
                        in (Ok None, PutState stub name amountStr))))"

definition transfer_part_000 :: "ledger \<Rightarrow> string list \<Rightarrow> result \<times> ledger" where
  "transfer_part_000 stub args =
     (if length args \<noteq> 3 then (Fail (IncorrectNumberOfArguments 3), stub)
      else
        let userA = args ! 0; userB = args ! 1
        in case ParseFloat (args ! 2) of
             Inl _ \<Rightarrow> (Fail (NotNumeric 3), stub)
           | Inr amount \<Rightarrow>
              (let amountStrA = bytes_of (GetState stub userA);
                   amountStrB = bytes_of (GetState stub userB)
               in case ParseFloat amountStrA of
                    Inl e \<Rightarrow> (Fail (StrconvError e), stub)
                  | Inr amountA \<Rightarrow>
                     (case ParseFloat amountStrB of
                        Inl e \<Rightarrow> (Fail (StrconvError e), stub)
                      | Inr amountB \<Rightarrow>
                          if fless (fsub amountA amount) fzero
                          then (Fail (NotEnoughBalance (args ! 0)), stub)
                          else
                            (let newAmountA = fsub amountA amount;
                                 newAmountB = fadd amountB amount;
                                 newAmountStrA = FormatFloat newAmountA;
                                 newAmountStrB = FormatFloat newAmountB;
                                 stub1 = PutState stub (args ! 0) newAmountStrA;
                                 stub2 = PutState stub1 (args ! 1) newAmountStrB
                             in (Ok None, stub2)))))"

section \<open>accounts.go, first program: accounts as JSON records\<close>

definition accountIndexStr :: string where
  "accountIndexStr = ''_accountindex''"

record Account =
  AccountNo :: string
  LegalEntity :: string
  Currency :: string
  Balance :: string

text \<open>\<^verbatim>\<open>Account{}\<close>, the record with every field empty.\<close>

definition Account0 :: Account where
  "Account0 = \<lparr>AccountNo = [], LegalEntity = [], Currency = [], Balance = []\<rparr>"

text \<open>
  \<^verbatim>\<open>json.Unmarshal(data, &res)\<close> for an \<^verbatim>\<open>Account\<close>: a text the scanner rejects
  leaves \<open>res\<close> as it is; an object sets the fields it names; \<^verbatim>\<open>null\<close> changes
  nothing; any other value is a type error. The chaincode ignores the error.
\<close>

definition json_Unmarshal_Account :: "string \<Rightarrow> Account \<Rightarrow> json_error option \<times> Account" where
  "json_Unmarshal_Account data res =
     (case json_scan data of
        None \<Rightarrow> (Some SyntaxError, res)
      | Some (JObject fs) \<Rightarrow>
          (if type_errors fs [''accountno'', ''legalentity'', ''currency'', ''balance'']
           then Some UnmarshalTypeError else None,
           \<lparr>AccountNo = string_field fs ''accountno'' (AccountNo res),
            LegalEntity = string_field fs ''legalentity'' (LegalEntity res),
            Currency = string_field fs ''currency'' (Currency res),
            Balance = string_field fs ''balance'' (Balance res)\<rparr>)
      | Some JNull \<Rightarrow> (None, res)
      | Some _ \<Rightarrow> (Some UnmarshalTypeError, res))"

definition json_Marshal_Account :: "Account \<Rightarrow> string" where
  "json_Marshal_Account a =
     ''{'' @ quote ''accountno'' @ '':'' @ quote (AccountNo a) @ '',''
     @ quote ''legalentity'' @ '':'' @ quote (LegalEntity a) @ '',''
     @ quote ''currency'' @ '':'' @ quote (Currency a) @ '',''
     @ quote ''balance'' @ '':'' @ quote (Balance a) @ ''}''"

text \<open>
  The record \<^verbatim>\<open>init_account\<close> writes is put together by hand, without escaping:
  \<^verbatim>\<open>{"accountno": "..", "legalentity": "..", "currency": "..", "balance": ".."}\<close>.
\<close>

definition account_str :: "string \<Rightarrow> string \<Rightarrow> string \<Rightarrow> string \<Rightarrow> string" where
  "account_str accountNo legalEntity currency amountStr =
     ''{'' @ [CHR 0x22] @ ''accountno'' @ [CHR 0x22] @ '': '' @ [CHR 0x22] @ accountNo
     @ [CHR 0x22] @ '', '' @ [CHR 0x22] @ ''legalentity'' @ [CHR 0x22] @ '': '' @ [CHR 0x22]
     @ legalEntity
     @ [CHR 0x22] @ '', '' @ [CHR 0x22] @ ''currency'' @ [CHR 0x22] @ '': '' @ [CHR 0x22]
     @ currency
     @ [CHR 0x22] @ '', '' @ [CHR 0x22] @ ''balance'' @ [CHR 0x22] @ '': '' @ [CHR 0x22]
     @ amountStr @ [CHR 0x22] @ ''}''"

text \<open>
  \<^verbatim>\<open>strings.ToLower\<close> depends on the Unicode tables; it is a parameter of
  \<open>init_account\<close>, and nothing is assumed of it.
\<close>

definition init_account ::
    "(string \<Rightarrow> string) \<Rightarrow> ledger \<Rightarrow> string list \<Rightarrow> result \<times> ledger" where
  "init_account ToLower stub args =
     (if length args \<noteq> 4 then (Fail (IncorrectNumberOfArguments 4), stub)
      else if length (args ! 0) \<le> 0 then (Fail (EmptyArgument 1), stub)
      else if length (args ! 1) \<le> 0 then (Fail (EmptyArgument 2), stub)
      else if length (args ! 2) \<le> 0 then (Fail (EmptyArgument 3), stub)
      else if length (args ! 3) \<le> 0 then (Fail (EmptyArgument 3), stub)
      else
        let accountNo = args ! 0;
            legalEntity = ToLower (args ! 1);
            currency = args ! 2
        in case ParseFloat (args ! 3) of
             Inl _ \<Rightarrow> (Fail (NotNumeric 4), stub)
           | Inr ammount \<Rightarrow>
              (let accountAsBytes = GetState stub accountNo;
                   res = snd (json_Unmarshal_Account (bytes_of accountAsBytes) Account0)
               in if AccountNo res = accountNo then (Fail AccountExists, stub)
                  else
                    let amountStr = FormatFloat ammount;
                        str = account_str accountNo legalEntity currency amountStr;
                        stub1 = PutState stub accountNo str;
                        accountsAsBytes = GetState stub1 accountIndexStr;
                        accountIndex = snd (json_Unmarshal_strings (bytes_of accountsAsBytes) None);
                        accountIndex' = append_go accountIndex accountNo;
                        jsonAsBytes = encode_strings accountIndex';
                        stub2 = PutState stub1 accountIndexStr jsonAsBytes
                    in (Ok None, stub2)))"

definition transfer_balance :: "ledger \<Rightarrow> string list \<Rightarrow> result \<times> ledger" where
  "transfer_balance stub args =
     (if length args < 3 then (Fail (IncorrectNumberOfArguments 3), stub)
      else
        case ParseFloat (args ! 2) of
          Inl _ \<Rightarrow> (Fail (NotNumeric 3), stub)
        | Inr amount \<Rightarrow>
           (let accountAAsBytes = GetState stub (args ! 0);
                resA = snd (json_Unmarshal_Account (bytes_of accountAAsBytes) Account0);
                accountBAsBytes = GetState stub (args ! 1);
                resB = snd (json_Unmarshal_Account (bytes_of accountBAsBytes) Account0)
            in case ParseFloat (Balance resA) of
                 Inl e \<Rightarrow> (Fail (StrconvError e), stub)
               | Inr BalanceA \<Rightarrow>
                  (case ParseFloat (Balance resB) of
                     Inl e \<Rightarrow> (Fail (StrconvError e), stub)
                   | Inr BalanceB \<Rightarrow>
                       if fless (fsub BalanceA amount) fzero
                       then (Fail (NotEnoughBalance (args ! 0)), stub)
                       else
                         (let newAmountA = fsub BalanceA amount;
                              newAmountB = fadd BalanceB amount;
                              newAmountStrA = FormatFloat newAmountA;
                              newAmountStrB = FormatFloat newAmountB;
                              resA' = resA\<lparr>Balance := newAmountStrA\<rparr>;
                              resB' = resB\<lparr>Balance := newAmountStrB\<rparr>;
                              jsonAAsBytes = json_Marshal_Account resA';
                              stub1 = PutState stub (args ! 0) jsonAAsBytes;
                              jsonBAsBytes = json_Marshal_Account resB';
                              stub2 = PutState stub1 (args ! 1) jsonBAsBytes
                          in (Ok None, stub2)))))"

section \<open>accounts.go, second program: invoices with an integer status\<close>

record Invoice_accounts =
  InvoiceId :: string
  Amount :: string
  Currency :: string
  Supplier :: string
  Payer :: string
  DueDate :: string
  Status :: int
  Buyer :: string
  Discount :: string

definition json_Marshal_Invoice_accounts :: "Invoice_accounts \<Rightarrow> string" where
  "json_Marshal_Invoice_accounts invoice =
     ''{'' @ quote ''invoiceid'' @ '':'' @ quote (InvoiceId invoice) @ '',''
     @ quote ''amount'' @ '':'' @ quote (Amount invoice) @ '',''
     @ quote ''currency'' @ '':'' @ quote (Currency invoice) @ '',''
     @ quote ''supplier'' @ '':'' @ quote (Supplier invoice) @ '',''
     @ quote ''payer'' @ '':'' @ quote (Payer invoice) @ '',''
     @ quote ''duedate'' @ '':'' @ quote (DueDate invoice) @ '',''
     @ quote ''status'' @ '':'' @ show_int (Status invoice) @ '',''
     @ quote ''buyer'' @ '':'' @ quote (Buyer invoice) @ '',''
     @ quote ''discount'' @ '':'' @ quote (Discount invoice) @ ''}''"

text \<open>\<^verbatim>\<open>get_invoice_details(stub, inv, caller, caller_affiliation)\<close> of accounts.go.\<close>

definition get_invoice_details_accounts ::
    "Invoice_accounts \<Rightarrow> string \<Rightarrow> string \<Rightarrow> result" where
  "get_invoice_details_accounts invoice caller caller_affiliation =
     (let bytes = json_Marshal_Invoice_accounts invoice
      in if Supplier invoice = caller \<or> Buyer invoice = caller then Ok (Some bytes)
         else Fail PermissionDenied_get_invoice_details)"

section \<open>chaincode\_start.go, second program: invoices, roles and trades\<close>

definition SUPPLIER :: string where "SUPPLIER = ''supplier''"
definition PAYER :: string where "PAYER = ''payer''"
definition BUYER :: string where "BUYER = ''buyer''"

record Invoice =
  InvoiceId :: string
  Amount :: string
  Currency :: string
  Supplier :: string
  Payer :: string
  DueDate :: string
  Status :: string
  Buyer :: string
  Discount :: string

record Invoice_Holder =
  Invoices :: "string list option"

definition Invoice0 :: Invoice where
  "Invoice0 = \<lparr>InvoiceId = [], Amount = [], Currency = [], Supplier = [], Payer = [],
     DueDate = [], Status = [], Buyer = [], Discount = []\<rparr>"

definition invoice_tags :: "string list" where
  "invoice_tags = [''invoiceid'', ''amount'', ''currency'', ''supplier'', ''payer'', ''duedate'',
     ''status'', ''buyer'', ''discount'']"

definition json_Unmarshal_Invoice :: "string \<Rightarrow> Invoice \<Rightarrow> json_error option \<times> Invoice" where
  "json_Unmarshal_Invoice data invoice =
     (case json_scan data of
        None \<Rightarrow> (Some SyntaxError, invoice)
      | Some (JObject fs) \<Rightarrow>
          (if type_errors fs invoice_tags then Some UnmarshalTypeError else None,
           \<lparr>InvoiceId = string_field fs ''invoiceid'' (InvoiceId invoice),
            Amount = string_field fs ''amount'' (Amount invoice),
            Currency = string_field fs ''currency'' (Currency invoice),
            Supplier = string_field fs ''supplier'' (Supplier invoice),
            Payer = string_field fs ''payer'' (Payer invoice),
            DueDate = string_field fs ''duedate'' (DueDate invoice),
            Status = string_field fs ''status'' (Status invoice),
            Buyer = string_field fs ''buyer'' (Buyer invoice),
            Discount = string_field fs ''discount'' (Discount invoice)\<rparr>)
      | Some JNull \<Rightarrow> (None, invoice)
      | Some _ \<Rightarrow> (Some UnmarshalTypeError, invoice))"

definition json_Marshal_Invoice :: "Invoice \<Rightarrow> string" where
  "json_Marshal_Invoice invoice =
     ''{'' @ quote ''invoiceid'' @ '':'' @ quote (InvoiceId invoice) @ '',''
     @ quote ''amount'' @ '':'' @ quote (Amount invoice) @ '',''
     @ quote ''currency'' @ '':'' @ quote (Currency invoice) @ '',''
     @ quote ''supplier'' @ '':'' @ quote (Supplier invoice) @ '',''
     @ quote ''payer'' @ '':'' @ quote (Payer invoice) @ '',''
     @ quote ''duedate'' @ '':'' @ quote (DueDate invoice) @ '',''
     @ quote ''status'' @ '':'' @ quote (Status invoice) @ '',''
     @ quote ''buyer'' @ '':'' @ quote (Buyer invoice) @ '',''
     @ quote ''discount'' @ '':'' @ quote (Discount invoice) @ ''}''"

definition json_Unmarshal_Invoice_Holder ::
    "string \<Rightarrow> Invoice_Holder \<Rightarrow> json_error option \<times> Invoice_Holder" where
  "json_Unmarshal_Invoice_Holder data h =
     (case json_scan data of
        None \<Rightarrow> (Some SyntaxError, h)
      | Some (JObject fs) \<Rightarrow>
          (let r = foldl (\<lambda>cur kv.
                     if fold_key (unquote (fst kv)) = ''invoices''
                     then (case decode_strings (snd kv) (fst cur) of (xs, e) \<Rightarrow> (xs, snd cur \<or> e))
                     else cur) (Invoices h, False) fs
           in (if snd r then Some UnmarshalTypeError else None, \<lparr>Invoices = fst r\<rparr>))
      | Some JNull \<Rightarrow> (None, h)
      | Some _ \<Rightarrow> (Some UnmarshalTypeError, h))"

definition json_Marshal_Invoice_Holder :: "Invoice_Holder \<Rightarrow> string" where
  "json_Marshal_Invoice_Holder h =
     ''{'' @ quote ''invoices'' @ '':'' @ encode_strings (Invoices h) @ ''}''"

definition add_particants :: "ledger \<Rightarrow> string \<Rightarrow> string \<Rightarrow> result \<times> ledger" where
  "add_particants stub name role = (Ok None, PutState stub name role)"

text \<open>The loop of \<^verbatim>\<open>Init\<close>: the arguments two by two; an odd one at the end is read out of range.\<close>

fun Init_participants :: "ledger \<Rightarrow> string list \<Rightarrow> result \<times> ledger" where
  "Init_participants stub [] = (Ok None, stub)"
| "Init_participants stub [name] = (Panic, stub)"
| "Init_participants stub (name # role # rest) =
     Init_participants (snd (add_particants stub name role)) rest"

definition Init :: "ledger \<Rightarrow> string list \<Rightarrow> result \<times> ledger" where
  "Init stub args =
     (let bytes = json_Marshal_Invoice_Holder \<lparr>Invoices = None\<rparr>;
          stub1 = PutState stub ''invoiceIDs'' bytes
      in Init_participants stub1 args)"

definition get_role :: "ledger \<Rightarrow> string \<Rightarrow> string" where
  "get_role stub name = bytes_of (GetState stub name)"

text \<open>\<^verbatim>\<open>retrieve_invoice\<close> returns the invoice as far as it was decoded, and whether decoding failed.\<close>

definition retrieve_invoice :: "ledger \<Rightarrow> string \<Rightarrow> Invoice \<times> bool" where
  "retrieve_invoice stub invoiceId =
     (let bytes = GetState stub invoiceId
      in case json_Unmarshal_Invoice (bytes_of bytes) Invoice0 of
           (err, invoice) \<Rightarrow> (invoice, err \<noteq> None))"

definition save_changes :: "ledger \<Rightarrow> Invoice \<Rightarrow> ledger" where
  "save_changes stub invoice = PutState stub (InvoiceId invoice) (json_Marshal_Invoice invoice)"

text \<open>The text \<^verbatim>\<open>create_invoice\<close> puts together: every json_member, the last one too, ends in a comma and a space.\<close>

definition json_member :: "string \<Rightarrow> string \<Rightarrow> string" where
  "json_member name val =
     [CHR 0x22] @ name @ [CHR 0x22] @ '':'' @ [CHR 0x22] @ val @ [CHR 0x22] @ '', ''"

definition invoice_json :: "string \<Rightarrow> string \<Rightarrow> string \<Rightarrow> string \<Rightarrow> string" where
  "invoice_json a0 a1 a2 a3 =
     (let invId = json_member ''invoiceid'' a0;
          amount = json_member ''amount'' a1;
          currency = json_member ''currency'' ''USD'';
          supplier = json_member ''supplier'' a2;
          payer = json_member ''payer'' a3;
          duedate = json_member ''duedate'' ''UNDEFINED'';
          status = json_member ''status'' ''0'';
          buyer = json_member ''buyer'' ''UNDEFINED'';
          discount = json_member ''discount'' ''UNDEFINED''
      in ''{'' @ invId @ amount @ currency @ supplier @ payer @ duedate @ status @ buyer
         @ discount @ ''}'')"

definition create_invoice :: "ledger \<Rightarrow> string list \<Rightarrow> result \<times> ledger" where
  "create_invoice stub args =
     (case (index args 0, index args 1, index args 2, index args 3) of
        (Some a0, Some a1, Some a2, Some a3) \<Rightarrow>
          (let invoiceId = a0
           in case json_Unmarshal_Invoice (invoice_json a0 a1 a2 a3) Invoice0 of
                (Some _, _) \<Rightarrow> (Fail InvalidJSON, stub)
              | (None, invoice) \<Rightarrow>
                  (let record = GetState stub (InvoiceId invoice)
                   in if record \<noteq> None then (Fail InvoiceExists, stub)
                      else
                        let role = get_role stub a2
                        in if role \<noteq> SUPPLIER
                           then (Fail (PermissionDenied_create_invoice role SUPPLIER), stub)
                           else
                             let role2 = get_role stub a3
                             in if role2 \<noteq> PAYER
                                then (Fail (PermissionDenied_create_invoice role2 PAYER), stub)
                                else
                                  let stub1 = save_changes stub invoice;
                                      bytes = GetState stub1 ''invoiceIDs''
                                  in case json_Unmarshal_Invoice_Holder (bytes_of bytes)
                                            \<lparr>Invoices = None\<rparr> of
                                       (Some _, _) \<Rightarrow> (Fail CorruptInvoiceHolder, stub1)
                                     | (None, invoiceIDs) \<Rightarrow>
                                         (let invoiceIDs' = invoiceIDs
                                                \<lparr>Invoices := append_go (Invoices invoiceIDs) invoiceId\<rparr>;
                                              bytes' = json_Marshal_Invoice_Holder invoiceIDs'
                                          in (Ok None, PutState stub1 ''invoiceIDs'' bytes'))))
      | _ \<Rightarrow> (Panic, stub))"

definition offer_trade :: "ledger \<Rightarrow> string list \<Rightarrow> result \<times> ledger" where
  "offer_trade stub args =
     (case (index args 0, index args 2) of
        (Some invoiceId, Some caller) \<Rightarrow>
          (let invoice = fst (retrieve_invoice stub invoiceId)
           in if caller \<noteq> Supplier invoice
              then (Fail (PermissionDenied_offer_trade caller (Supplier invoice)), stub)
              else
                (case index args 1 of
                   None \<Rightarrow> (Panic, stub)
                 | Some a1 \<Rightarrow>
                     (let invoice' = invoice\<lparr>Status := ''1'', Discount := a1\<rparr>
                      in (Ok None, save_changes stub invoice'))))
      | _ \<Rightarrow> (Panic, stub))"

definition accept_trade :: "ledger \<Rightarrow> string list \<Rightarrow> result \<times> ledger" where
  "accept_trade stub args =
     (case (index args 0, index args 1) of
        (Some invoiceId, Some caller) \<Rightarrow>
          (let invoice = fst (retrieve_invoice stub invoiceId);
               role = get_role stub caller
           in if role \<noteq> BUYER then (Fail (PermissionDenied_offer_trade role BUYER), stub)
              else
                (let invoice' = invoice\<lparr>Buyer := caller, Status := ''2''\<rparr>
                 in (Ok None, save_changes stub invoice')))
      | _ \<Rightarrow> (Panic, stub))"

definition get_invoice_details :: "Invoice \<Rightarrow> string \<Rightarrow> result" where
  "get_invoice_details invoice caller =
     (let bytes = json_Marshal_Invoice invoice
      in if Supplier invoice = caller \<or> Buyer invoice = caller \<or> Payer invoice = caller
         then Ok (Some bytes)
         else Fail PermissionDenied_get_invoice_details)"

text \<open>The \<^verbatim>\<open>get_invoice_details\<close> branch of \<^verbatim>\<open>Query\<close>.\<close>

definition Query_get_invoice_details :: "ledger \<Rightarrow> string list \<Rightarrow> result" where
  "Query_get_invoice_details stub args =
     (if length args \<noteq> 2 then Fail (IncorrectNumberOfArguments 2)
      else case retrieve_invoice stub (args ! 0) of
             (invoice, err) \<Rightarrow>
               if err then Fail ErrorRetrievingInvoice
               else get_invoice_details invoice (args ! 1))"


section \<open>accounts.go, second program: storing and reading invoices\<close>

text \<open>
  \<^verbatim>\<open>Init\<close>, \<^verbatim>\<open>add_particants\<close>, \<^verbatim>\<open>get_role\<close>, the three role names and the
  \<^verbatim>\<open>Invoice_Holder\<close> are the same text in accounts.go as in chaincode\_start.go: they are
  the definitions above. The invoice differs, its status being an \<^verbatim>\<open>int\<close>.
\<close>

text \<open>\<^verbatim>\<open>strconv.ParseInt(s, 10, 64)\<close>.\<close>

definition ParseInt :: "string \<Rightarrow> strconv_error + int" where
  "ParseInt s =
     (if s = [] then Inl ErrSyntax
      else
        let neg = (hd s = CHR ''-'');
            s' = (if hd s = CHR ''+'' \<or> hd s = CHR ''-'' then tl s else s)
        in if s' = [] \<or> \<not> list_all is_digit s' then Inl ErrSyntax
           else
             let un = int_of_digits s'
             in if \<not> neg \<and> 2 ^ 63 \<le> un then Inl ErrRange
                else if neg \<and> 2 ^ 63 < un then Inl ErrRange
                else Inr (if neg then - un else un))"

text \<open>
  An \<^verbatim>\<open>int\<close> field takes a JSON number that \<^verbatim>\<open>ParseInt\<close> reads; \<^verbatim>\<open>null\<close> leaves it as it
  is; any other value leaves it as it is and is reported as a type error.
\<close>

definition decode_int :: "json \<Rightarrow> int \<Rightarrow> int \<times> bool" where
  "decode_int v old =
     (case v of
        JNumber s \<Rightarrow> (case ParseInt s of Inr n \<Rightarrow> (n, False) | Inl _ \<Rightarrow> (old, True))
      | JNull \<Rightarrow> (old, False)
      | _ \<Rightarrow> (old, True))"

definition int_field :: "(string \<times> json) list \<Rightarrow> string \<Rightarrow> int \<Rightarrow> int" where
  "int_field fs tag old =
     foldl (\<lambda>cur kv. if fold_key (unquote (fst kv)) = tag then fst (decode_int (snd kv) cur) else cur)
       old fs"

definition int_type_errors :: "(string \<times> json) list \<Rightarrow> string \<Rightarrow> bool" where
  "int_type_errors fs tag =
     list_ex (\<lambda>kv. fold_key (unquote (fst kv)) = tag \<and> snd (decode_int (snd kv) 0)) fs"

definition Invoice_accounts0 :: Invoice_accounts where
  "Invoice_accounts0 =
     \<lparr>Invoice_accounts.InvoiceId = [], Amount = [], Currency = [], Supplier = [], Payer = [],
      DueDate = [], Status = 0, Buyer = [], Discount = []\<rparr>"

definition invoice_accounts_string_tags :: "string list" where
  "invoice_accounts_string_tags =
     [''invoiceid'', ''amount'', ''currency'', ''supplier'', ''payer'', ''duedate'', ''buyer'',
      ''discount'']"

definition json_Unmarshal_Invoice_accounts ::
    "string \<Rightarrow> Invoice_accounts \<Rightarrow> json_error option \<times> Invoice_accounts" where
  "json_Unmarshal_Invoice_accounts data invoice =
     (case json_scan data of
        None \<Rightarrow> (Some SyntaxError, invoice)
      | Some (JObject fs) \<Rightarrow>
          (if type_errors fs invoice_accounts_string_tags \<or> int_type_errors fs ''status''
           then Some UnmarshalTypeError else None,
           \<lparr>Invoice_accounts.InvoiceId =
              string_field fs ''invoiceid'' (Invoice_accounts.InvoiceId invoice),
            Amount = string_field fs ''amount'' (Invoice_accounts.Amount invoice),
            Currency = string_field fs ''currency'' (Invoice_accounts.Currency invoice),
            Supplier = string_field fs ''supplier'' (Invoice_accounts.Supplier invoice),
            Payer = string_field fs ''payer'' (Invoice_accounts.Payer invoice),
            DueDate = string_field fs ''duedate'' (Invoice_accounts.DueDate invoice),
            Status = int_field fs ''status'' (Invoice_accounts.Status invoice),
            Buyer = string_field fs ''buyer'' (Invoice_accounts.Buyer invoice),
            Discount = string_field fs ''discount'' (Invoice_accounts.Discount invoice)\<rparr>)
      | Some JNull \<Rightarrow> (None, invoice)
      | Some _ \<Rightarrow> (Some UnmarshalTypeError, invoice))"

definition retrieve_invoice_accounts :: "ledger \<Rightarrow> string \<Rightarrow> Invoice_accounts \<times> bool" where
  "retrieve_invoice_accounts stub invoiceId =
     (let bytes = GetState stub invoiceId
      in case json_Unmarshal_Invoice_accounts (bytes_of bytes) Invoice_accounts0 of
           (err, invoice) \<Rightarrow> (invoice, err \<noteq> None))"

definition save_changes_accounts :: "ledger \<Rightarrow> Invoice_accounts \<Rightarrow> ledger" where
  "save_changes_accounts stub invoice =
     PutState stub (Invoice_accounts.InvoiceId invoice) (json_Marshal_Invoice_accounts invoice)"

text \<open>
  The text \<^verbatim>\<open>create_invoice\<close> of accounts.go puts together: no due date, the caller as
  the supplier, and again a comma and a space after the last member.
\<close>

definition invoice_json_accounts :: "string \<Rightarrow> string \<Rightarrow> string \<Rightarrow> string" where
  "invoice_json_accounts a0 a1 caller =
     (let invId = json_member ''invoiceid'' a0;
          amount = json_member ''amount'' a1;
          currency = json_member ''currency'' ''USD'';
          supplier = json_member ''supplier'' caller;
          payer = json_member ''payer'' ''UNDEFINED'';
          status = json_member ''status'' ''0'';
          buyer = json_member ''buyer'' ''UNDEFINED'';
          discount = json_member ''discount'' ''UNDEFINED''
      in ''{'' @ invId @ amount @ currency @ supplier @ payer @ status @ buyer @ discount @ ''}'')"

definition create_invoice_accounts ::
    "ledger \<Rightarrow> string \<Rightarrow> string \<Rightarrow> string list \<Rightarrow> result \<times> ledger" where
  "create_invoice_accounts stub caller role args =
     (case (index args 0, index args 1) of
        (Some a0, Some a1) \<Rightarrow>
          (let invoiceId = a0
           in case json_Unmarshal_Invoice_accounts (invoice_json_accounts a0 a1 caller)
                     Invoice_accounts0 of
                (Some _, _) \<Rightarrow> (Fail InvalidJSON, stub)
              | (None, invoice) \<Rightarrow>
                  (let record = GetState stub (Invoice_accounts.InvoiceId invoice)
                   in if record \<noteq> None then (Fail InvoiceExists, stub)
                      else if role \<noteq> SUPPLIER
                      then (Fail (PermissionDenied_create_invoice role SUPPLIER), stub)
                      else
                        let stub1 = save_changes_accounts stub invoice;
                            bytes = GetState stub1 ''invoiceIDs''
                        in case json_Unmarshal_Invoice_Holder (bytes_of bytes)
                                  \<lparr>Invoices = None\<rparr> of
                             (Some _, _) \<Rightarrow> (Fail CorruptInvoiceHolder, stub1)
                           | (None, invoiceIDs) \<Rightarrow>
                               (let invoiceIDs' = invoiceIDs
                                      \<lparr>Invoices := append_go (Invoices invoiceIDs) invoiceId\<rparr>;
                                    bytes' = json_Marshal_Invoice_Holder invoiceIDs'
                                in (Ok None, PutState stub1 ''invoiceIDs'' bytes'))))
      | _ \<Rightarrow> (Panic, stub))"

text \<open>
  \<^verbatim>\<open>Invoke\<close> and \<^verbatim>\<open>Query\<close> of accounts.go take the caller from the \<^verbatim>\<open>username\<close>
  attribute of the caller's certificate, here the argument \<open>username\<close>, and the
  caller's role from the ledger. \<^verbatim>\<open>create_invoice\<close> is the one operation \<^verbatim>\<open>Invoke\<close>
  offers; any other function name is answered by \<^verbatim>\<open>ping\<close>, which writes nothing.
\<close>

definition Invoke_create_invoice_accounts ::
    "ledger \<Rightarrow> string \<Rightarrow> string list \<Rightarrow> result \<times> ledger" where
  "Invoke_create_invoice_accounts stub username args =
     (let caller = username; role = get_role stub username
      in create_invoice_accounts stub caller role args)"

definition Query_get_invoice_details_accounts :: "ledger \<Rightarrow> string \<Rightarrow> string list \<Rightarrow> result" where
  "Query_get_invoice_details_accounts stub username args =
     (let caller = username; role = get_role stub username
      in if length args \<noteq> 1 then Fail (IncorrectNumberOfArguments 1)
         else case retrieve_invoice_accounts stub (args ! 0) of
                (invoice, err) \<Rightarrow>
                  if err then Fail ErrorRetrievingInvoice
                  else get_invoice_details_accounts invoice caller role)"
section \<open>Reading the ledger, and the ledgers of the examples\<close>

text \<open>The account a key holds, as \<^verbatim>\<open>transfer_balance\<close> and \<^verbatim>\<open>init_account\<close> decode it, and its balance field.\<close>

definition stored_account :: "ledger \<Rightarrow> string \<Rightarrow> Account" where
  "stored_account stub key = snd (json_Unmarshal_Account (bytes_of (GetState stub key)) Account0)"

definition stored_balance :: "ledger \<Rightarrow> string \<Rightarrow> string" where
  "stored_balance stub key = Balance (stored_account stub key)"

text \<open>
  The sum of two finite doubles is exact when it needs no rounding: it has at most 53
  significant bits and stays below \<open>2^1024\<close>.
\<close>

definition exact_sum :: "float64 \<Rightarrow> float64 \<Rightarrow> bool" where
  "exact_sum a b =
     (case (a, b) of
        (Finite s1 m1 e1, Finite s2 m2 e2) \<Rightarrow>
          (let e0 = min e1 e2; d = aligned s1 m1 e1 e0 + aligned s2 m2 e2 e0
           in bitlen \<bar>d\<bar> \<le> 53 \<and> bitlen \<bar>d\<bar> + e0 \<le> 1024)
      | _ \<Rightarrow> False)"

definition account :: "string \<Rightarrow> string \<Rightarrow> Account" where
  "account no bal =
     \<lparr>AccountNo = no, LegalEntity = ''alice'', Account.Currency = ''USD'', Balance = bal\<rparr>"

text \<open>Accounts A001 and B001 with the given balances, as \<^verbatim>\<open>transfer_balance\<close> writes accounts.\<close>

definition two_accounts :: "string \<Rightarrow> string \<Rightarrow> ledger" where
  "two_accounts balA balB =
     [''A001'' \<mapsto> json_Marshal_Account (account ''A001'' balA),
      ''B001'' \<mapsto> json_Marshal_Account (account ''B001'' balB)]"

text \<open>Account A001 alone: no value under any other key.\<close>

definition one_account :: "string \<Rightarrow> ledger" where
  "one_account balA = [''A001'' \<mapsto> json_Marshal_Account (account ''A001'' balA)]"

text \<open>The same two balances as \<^verbatim>\<open>init_amount\<close> stores them: the number alone.\<close>

definition raw_balances :: "string \<Rightarrow> string \<Rightarrow> ledger" where
  "raw_balances balA balB = [''A001'' \<mapsto> balA, ''B001'' \<mapsto> balB]"

text \<open>An invoice in its first status, and a ledger with it and the three participants.\<close>

definition invoice1 :: Invoice where
  "invoice1 = \<lparr>InvoiceId = ''INV1'', Amount = ''100.00'', Currency = ''USD'',
     Supplier = ''test_user0'', Payer = ''test_user1'', DueDate = ''UNDEFINED'', Status = ''0'',
     Buyer = ''UNDEFINED'', Discount = ''UNDEFINED''\<rparr>"

definition invoice_ledger :: ledger where
  "invoice_ledger =
     [''INV1'' \<mapsto> json_Marshal_Invoice invoice1, ''test_user0'' \<mapsto> ''supplier'',
      ''test_user1'' \<mapsto> ''payer'', ''test_user2'' \<mapsto> ''buyer'']"

text \<open>
  An invoice of accounts.go with a supplier, a payer and a buyer, and the ledger
  \<^verbatim>\<open>Init\<close> leaves when it is deployed with that invoice's text and the three
  participants.
\<close>

definition invoice2 :: Invoice_accounts where
  "invoice2 = \<lparr>Invoice_accounts.InvoiceId = ''INV1'', Amount = ''100.00'', Currency = ''USD'',
     Supplier = ''test_user0'', Payer = ''test_user1'', DueDate = ''UNDEFINED'', Status = 0,
     Buyer = ''test_user2'', Discount = ''UNDEFINED''\<rparr>"

definition deployed_ledger :: ledger where
  "deployed_ledger =
     snd (Init Map.empty [''INV1'', json_Marshal_Invoice_accounts invoice2,
            ''test_user0'', ''supplier'', ''test_user1'', ''payer'', ''test_user2'', ''buyer''])"

text \<open>
  The bytes that \<^verbatim>\<open>json.Marshal\<close> writes as they are and \<^verbatim>\<open>json.Unmarshal\<close> reads as
  they are: printable ASCII other than the quote, the backslash and the three characters
  escaped for HTML.
\<close>

definition plain :: "char \<Rightarrow> bool" where
  "plain c =
     (32 \<le> (of_char c :: nat) \<and> (of_char c :: nat) < 128 \<and> c \<noteq> CHR 0x22 \<and> c \<noteq> CHR 0x5C
      \<and> c \<noteq> CHR ''<'' \<and> c \<noteq> CHR ''>'' \<and> c \<noteq> CHR ''&'')"

text \<open>A double whose mantissa is not negative, as every double that was parsed or computed is.\<close>

fun nonneg_mantissa :: "float64 \<Rightarrow> bool" where
  "nonneg_mantissa (Finite s m e) = (0 \<le> m)"
| "nonneg_mantissa _ = True"

section \<open>Properties\<close>

subsection \<open>float64 arithmetic\<close>

text \<open>The difference of a smaller and a greater number is negative: rounding keeps the sign and never gives zero.\<close>

lemma rne_pos:
  assumes "0 < n"
  shows "0 < rne n (nat (bitlen n - 53))"
proof -
  let ?k = "nat (bitlen n - 53)"
  have b: "2 ^ nat (bitlen n - 1) \<le> n" using bitlen_bounds [OF assms] by simp
  have "bitlen n \<ge> 1" using assms by (simp add: bitlen_alt_def)
  then have "?k \<le> nat (bitlen n - 1)" by simp
  then have "(2::int) ^ ?k \<le> 2 ^ nat (bitlen n - 1)"
    by (intro power_increasing) simp_all
  with b have le: "(2::int) ^ ?k \<le> n" by linarith
  have "(2::int) ^ ?k div 2 ^ ?k \<le> n div 2 ^ ?k"
    by (rule zdiv_mono1 [OF le]) simp
  then have "1 \<le> n div 2 ^ ?k" by simp
  then show ?thesis
    by (simp add: rne_def Let_def)
qed

lemma norm_odd_pos: "0 < m \<Longrightarrow> 0 < fst (norm_odd m e)"
proof (induction m e rule: norm_odd.induct)
  case (1 m e)
  show ?case
  proof (cases "m \<noteq> 0 \<and> even m")
    case True
    then have "0 < m div 2" using "1.prems" by presburger
    with True "1.IH" show ?thesis by (subst norm_odd.simps) simp
  next
    case False
    with "1.prems" show ?thesis by (subst norm_odd.simps) auto
  qed
qed

lemma fless_reduced_neg: "0 < m \<Longrightarrow> fless (reduced True m e) fzero"
  using norm_odd_pos [of m e]
  by (auto simp add: reduced_def fzero_def aligned_def Let_def split: prod.splits)

lemma fless_round_neg: "0 < m \<Longrightarrow> fless (round_to_float64 True m e) fzero"
  using rne_pos [of m]
  by (simp add: round_to_float64_def Let_def fless_reduced_neg) (simp add: fzero_def)

lemma fless_fsub: "fless a x \<Longrightarrow> fless (fsub a x) fzero"
proof (cases a; cases x)
  fix s1 m1 e1 s2 m2 e2
  assume a: "a = Finite s1 m1 e1" and x: "x = Finite s2 m2 e2" and l: "fless a x"
  let ?e0 = "min e1 e2"
  let ?d = "aligned s1 m1 e1 ?e0 + aligned (\<not> s2) m2 e2 ?e0"
  have n: "aligned (\<not> s2) m2 e2 ?e0 = - aligned s2 m2 e2 ?e0" by (simp add: aligned_def)
  have "?d < 0" using l a x n by (simp add: Let_def)
  then show ?thesis
    using a x fless_round_neg [of "\<bar>?d\<bar>" ?e0]
    by (simp add: fsub_def Let_def)
qed (auto simp add: fsub_def fzero_def)

text \<open>A sum that needs no rounding is the sum of the two numbers.\<close>

lemma valof_aligned:
  assumes "e0 \<le> e"
  shows "valof (Finite s m e) = real_of_int (aligned s m e e0) * 2 powr (real_of_int e0)"
proof -
  have "(2::real) powr (real_of_int e) = 2 powr (real_of_int (e - e0)) * 2 powr (real_of_int e0)"
    by (simp add: powr_add [symmetric])
  moreover have "(2::real) powr (real_of_int (e - e0)) = 2 ^ nat (e - e0)"
    using assms by (simp add: powr_realpow [symmetric])
  ultimately show ?thesis by (simp add: aligned_def)
qed

lemma norm_odd_value:
  "norm_odd m e = (m', e') \<Longrightarrow> real_of_int m' * 2 powr (real_of_int e') = real_of_int m * 2 powr (real_of_int e)"
proof (induction m e rule: norm_odd.induct)
  case (1 m e)
  show ?case
  proof (cases "m \<noteq> 0 \<and> even m")
    case True
    then have n: "norm_odd (m div 2) (e + 1) = (m', e')"
      using "1.prems" by (subst (asm) norm_odd.simps) simp
    have "real_of_int m = 2 * real_of_int (m div 2)" using True by auto
    moreover have "(2::real) powr (real_of_int (e + 1)) = 2 * 2 powr (real_of_int e)"
      by (simp add: powr_add)
    ultimately show ?thesis using "1.IH" [OF True n] by simp
  next
    case False
    with "1.prems" show ?thesis by (subst (asm) norm_odd.simps) auto
  qed
qed

lemma valof_reduced:
  "valof (reduced neg m e) = (if neg then - 1 else 1) * real_of_int m * 2 powr (real_of_int e)"
proof (cases "m = 0")
  case True
  then show ?thesis by (simp add: reduced_def)
next
  case False
  obtain m' e' where n: "norm_odd m e = (m', e')" by (cases "norm_odd m e")
  from norm_odd_value [OF n] False n show ?thesis by (simp add: reduced_def)
qed

lemma rne_0: "rne n 0 = n"
  by (simp add: rne_def)

lemma valof_fadd_exact:
  assumes "exact_sum a b"
  shows "valof (fadd a b) = valof a + valof b"
proof -
  from assms obtain s1 m1 e1 s2 m2 e2 where a: "a = Finite s1 m1 e1" and b: "b = Finite s2 m2 e2"
    by (cases a; cases b) (simp_all add: exact_sum_def)
  let ?e0 = "min e1 e2"
  let ?d = "aligned s1 m1 e1 ?e0 + aligned s2 m2 e2 ?e0"
  have bits: "bitlen \<bar>?d\<bar> \<le> 53" "bitlen \<bar>?d\<bar> + ?e0 \<le> 1024"
    using assms a b by (simp_all add: exact_sum_def Let_def)
  have sum: "valof a + valof b = real_of_int ?d * 2 powr (real_of_int ?e0)"
    using valof_aligned [of ?e0 e1 s1 m1] valof_aligned [of ?e0 e2 s2 m2] a b
    by (simp add: algebra_simps)
  show ?thesis
  proof (cases "?d = 0")
    case True
    with a b sum show ?thesis by (simp add: Let_def)
  next
    case False
    have k: "nat (bitlen \<bar>?d\<bar> - 53) = 0" using bits by simp
    have "round_to_float64 (?d < 0) \<bar>?d\<bar> ?e0 = reduced (?d < 0) \<bar>?d\<bar> ?e0"
      using bits by (simp add: round_to_float64_def Let_def k rne_0)
    then have "valof (fadd a b) = valof (reduced (?d < 0) \<bar>?d\<bar> ?e0)"
      using a b False by (simp add: Let_def)
    also have "\<dots> = real_of_int ?d * 2 powr (real_of_int ?e0)"
      by (simp add: valof_reduced)
    finally show ?thesis using sum by simp
  qed
qed

lemma valof_fneg: "valof (fneg x) = - valof x"
  by (cases x) simp_all

lemma valof_fsub_exact: "exact_sum a (fneg x) \<Longrightarrow> valof (fsub a x) = valof a - valof x"
  by (simp add: fsub_def valof_fadd_exact valof_fneg)

lemma valof_pos: "fless fzero x \<Longrightarrow> is_finite x \<Longrightarrow> 0 < valof x"
  by (cases x) (auto simp add: fzero_def aligned_def Let_def zero_less_mult_iff split: if_splits)

text \<open>The mantissa of a sum or a difference is not negative.\<close>

lemma rne_nonneg: "0 \<le> n \<Longrightarrow> 0 \<le> rne n k"
  by (simp add: rne_def Let_def pos_imp_zdiv_nonneg_iff)

lemma norm_odd_nonneg: "0 \<le> m \<Longrightarrow> 0 \<le> fst (norm_odd m e)"
proof (induction m e rule: norm_odd.induct)
  case (1 m e)
  show ?case
  proof (cases "m \<noteq> 0 \<and> even m")
    case True
    then have "0 \<le> m div 2" using "1.prems" by simp
    with True "1.IH" show ?thesis by (subst norm_odd.simps) simp
  next
    case False
    with "1.prems" show ?thesis by (subst norm_odd.simps) auto
  qed
qed

lemma nonneg_reduced: "0 \<le> m \<Longrightarrow> nonneg_mantissa (reduced neg m e)"
  using norm_odd_nonneg [of m e] by (auto simp add: reduced_def split: prod.splits)

lemma nonneg_round: "0 \<le> m \<Longrightarrow> nonneg_mantissa (round_to_float64 neg m e)"
  by (simp add: round_to_float64_def Let_def nonneg_reduced rne_nonneg)

lemma nonneg_fadd: "nonneg_mantissa (fadd a b)"
  by (cases a; cases b) (simp_all add: Let_def nonneg_round)

lemma nonneg_fsub: "nonneg_mantissa (fsub a b)"
  by (simp add: fsub_def nonneg_fadd)

subsection \<open>encoding/json: reading back what Marshal wrote\<close>

text \<open>
  The scanner reads the encoding of any string as one string: the encoder escapes the
  quote, the backslash and the control bytes, and writes nothing else that ends a string.
\<close>

lemma scan_high_bytes:
  "\<forall>c\<in>set xs. 128 \<le> (of_char c :: nat) \<Longrightarrow>
     foldl scan_step (Scan stateInString st tok res) xs = Scan stateInString st (tok @ xs) res"
proof (induction xs arbitrary: tok)
  case Nil
  then show ?case by simp
next
  case (Cons c cs)
  then have h: "128 \<le> (of_char c :: nat)" by simp
  then have "c \<noteq> CHR 0x22" "c \<noteq> CHR 0x5C" "\<not> (of_char c :: nat) < 32" by auto
  then have "scan_step (Scan stateInString st tok res) c = Scan stateInString st (tok @ [c]) res"
    by simp
  with Cons show ?case by simp
qed

lemma utf8_size_high:
  assumes "utf8_size s = n" and "n \<noteq> 0" and "s = c # cs" and "128 \<le> (of_char c :: nat)"
  shows "\<forall>x\<in>set (take n s). 128 \<le> (of_char x :: nat)"
proof -
  have cont: "is_cont s i lo hi \<Longrightarrow> 128 \<le> lo \<Longrightarrow> 128 \<le> (of_char (s ! i) :: nat)" for i lo hi
    by (simp add: is_cont_def)
  have n4: "n \<le> 4" using assms(1,3) by (auto simp add: utf8_size_def Let_def split: if_splits)
  have len: "n \<le> length s" using assms(1,2,3)
    by (auto simp add: utf8_size_def Let_def is_cont_def Suc_le_eq split: if_splits)
  have idx: "\<And>i. i < n \<Longrightarrow> 128 \<le> (of_char (s ! i) :: nat)"
  proof -
    fix i assume "i < n"
    with n4 have "i = 0 \<or> i = 1 \<or> i = 2 \<or> i = 3" by auto
    then show "128 \<le> (of_char (s ! i) :: nat)"
      using assms \<open>i < n\<close>
      by (auto simp add: utf8_size_def Let_def is_cont_def split: if_splits)
  qed
  show ?thesis
  proof
    fix x assume "x \<in> set (take n s)"
    then obtain i where "i < length (take n s)" "x = take n s ! i"
      by (auto simp add: in_set_conv_nth)
    then show "128 \<le> (of_char x :: nat)" using idx len by simp
  qed
qed


lemma is_hex_hex_digit: "n < 16 \<Longrightarrow> is_hex (hex_digit n)"
  by (auto simp add: is_hex_def hex_digit_def Let_def)

lemma scan_quote_body:
  "foldl scan_step (Scan stateInString st tok res) (quote_body s)
     = Scan stateInString st (tok @ quote_body s) res"
proof (induction s arbitrary: tok rule: quote_body.induct)
  case 1
  then show ?case by (simp add: quote_body.simps)
next
  case (2 c cs)
  let ?b = "of_char c :: nat"
  show ?case
  proof (cases "?b < 0x80")
    case True
    show ?thesis
    proof (cases "0x20 \<le> ?b \<and> c \<noteq> CHR 0x5C \<and> c \<noteq> CHR 0x22 \<and> c \<noteq> CHR ''<'' \<and> c \<noteq> CHR ''>''
               \<and> c \<noteq> CHR ''&''")
      case plain: True
      then have q: "quote_body (c # cs) = c # quote_body cs"
        using True by (subst quote_body.simps) (simp add: Let_def)
      from plain have "scan_step (Scan stateInString st tok res) c = Scan stateInString st (tok @ [c]) res"
        by auto
      with q "2.IH"(1) [OF refl True plain, of "tok @ [c]"] show ?thesis by simp
    next
      case special: False
      show ?thesis
      proof (cases "c = CHR 0x5C \<or> c = CHR 0x22")
        case e1: True
        then have q: "quote_body (c # cs) = CHR 0x5C # c # quote_body cs"
          using True special by (subst quote_body.simps) (auto simp add: Let_def)
        show ?thesis
          using e1 "2.IH"(2) [OF refl True special e1, of "tok @ [CHR 0x5C, c]"]
          by (auto simp add: q)
      next
        case n1: False
        show ?thesis
        proof (cases "c = CHR 0x0A")
          case e2: True
          then have q: "quote_body (c # cs) = CHR 0x5C # CHR ''n'' # quote_body cs"
            by (subst quote_body.simps) (simp add: Let_def)
          show ?thesis
            using "2.IH"(3) [OF refl True special n1 e2, of "tok @ [CHR 0x5C, CHR ''n'']"]
            by (simp add: q)
        next
          case n2: False
          show ?thesis
          proof (cases "c = CHR 0x0D")
            case e3: True
            then have q: "quote_body (c # cs) = CHR 0x5C # CHR ''r'' # quote_body cs"
              by (subst quote_body.simps) (simp add: Let_def)
            show ?thesis
              using "2.IH"(4) [OF refl True special n1 n2 e3, of "tok @ [CHR 0x5C, CHR ''r'']"]
              by (simp add: q)
          next
            case n3: False
            show ?thesis
            proof (cases "c = CHR 0x09")
              case e4: True
              then have q: "quote_body (c # cs) = CHR 0x5C # CHR ''t'' # quote_body cs"
                by (subst quote_body.simps) (simp add: Let_def)
              show ?thesis
                using "2.IH"(5) [OF refl True special n1 n2 n3 e4, of "tok @ [CHR 0x5C, CHR ''t'']"]
                by (simp add: q)
            next
              case n4: False
              have q: "quote_body (c # cs) =
                  CHR 0x5C # CHR ''u'' # CHR ''0'' # CHR ''0'' # hex_digit (?b div 16)
                    # hex_digit (?b mod 16) # quote_body cs"
                using True special n1 n2 n3 n4 by (subst quote_body.simps) (simp add: Let_def)
              have "?b div 16 < 16" "?b mod 16 < 16" using True by simp_all
              then have h: "is_hex (hex_digit (?b div 16))" "is_hex (hex_digit (?b mod 16))"
                by (simp_all only: is_hex_hex_digit)
              have h0: "is_hex (CHR ''0'')" by (simp add: is_hex_def)
              show ?thesis
                using "2.IH"(6) [OF refl True special n1 n2 n3 n4,
                    of "tok @ [CHR 0x5C, CHR ''u'', CHR ''0'', CHR ''0'', hex_digit (?b div 16),
                          hex_digit (?b mod 16)]"] h h0
                by (simp add: q)
            qed
          qed
        qed
      qed
    qed
  next
    case False
    let ?n = "utf8_size (c # cs)"
    show ?thesis
    proof (cases "?n = 0")
      case z: True
      then have q: "quote_body (c # cs) = CHR 0x5C # ''ufffd'' @ quote_body cs"
        using False by (subst quote_body.simps) (simp add: Let_def)
      have h: "is_hex (CHR ''f'')" "is_hex (CHR ''d'')" by (simp_all add: is_hex_def)
      show ?thesis
        using "2.IH"(7) [OF refl False refl z, of "tok @ CHR 0x5C # ''ufffd''"] h
        by (simp add: q)
    next
      case nz: False
      show ?thesis
      proof (cases "take 3 (c # cs) = [CHR 0xE2, CHR 0x80, CHR 0xA8]")
        case l1: True
        then have q: "quote_body (c # cs) = CHR 0x5C # ''u2028'' @ quote_body (drop 2 cs)"
          using False nz by (subst quote_body.simps) (simp add: Let_def)
        have h: "is_hex (CHR ''2'')" "is_hex (CHR ''0'')" "is_hex (CHR ''8'')"
          by (simp_all add: is_hex_def)
        show ?thesis
          using "2.IH"(8) [OF refl False refl nz l1, of "tok @ CHR 0x5C # ''u2028''"] h
          by (simp add: q)
      next
        case nl1: False
        show ?thesis
        proof (cases "take 3 (c # cs) = [CHR 0xE2, CHR 0x80, CHR 0xA9]")
          case l2: True
          then have q: "quote_body (c # cs) = CHR 0x5C # ''u2029'' @ quote_body (drop 2 cs)"
            using False nz nl1 by (subst quote_body.simps) (simp add: Let_def)
          have h: "is_hex (CHR ''2'')" "is_hex (CHR ''0'')" "is_hex (CHR ''9'')"
            by (simp_all add: is_hex_def)
          show ?thesis
            using "2.IH"(9) [OF refl False refl nz nl1 l2, of "tok @ CHR 0x5C # ''u2029''"] h
            by (simp add: q)
        next
          case nl2: False
          have q: "quote_body (c # cs) = take ?n (c # cs) @ quote_body (drop (?n - 1) cs)"
            using False nz nl1 nl2 by (subst quote_body.simps) (auto simp add: Let_def)
          have hb: "128 \<le> ?b" using False by simp
          have high: "\<forall>x\<in>set (take ?n (c # cs)). 128 \<le> (of_char x :: nat)"
            using utf8_size_high [OF refl nz refl hb] .
          show ?thesis
            using "2.IH"(10) [OF refl False refl nz nl1 nl2, of "tok @ take ?n (c # cs)"]
              scan_high_bytes [OF high, of st tok res]
            by (simp add: q)
        qed
      qed
    qed
  qed
qed

lemma scan_quote:
  assumes "stp = stateBeginString \<or> stp = stateBeginStringOrEmpty \<or> stp = stateBeginValue"
  shows "foldl scan_step (Scan stp st [] res) (quote s)
           = scanLiteral (JString (quote_body s)) st res"
  using assms
  by (auto simp add: quote_def scan_quote_body scanBeginString_def scanBeginValue_def isSpace_def)

lemma invoice_keys:
  "fold_key (unquote (quote_body ''invoiceid'')) = ''invoiceid''"
  "fold_key (unquote (quote_body ''amount'')) = ''amount''"
  "fold_key (unquote (quote_body ''currency'')) = ''currency''"
  "fold_key (unquote (quote_body ''supplier'')) = ''supplier''"
  "fold_key (unquote (quote_body ''payer'')) = ''payer''"
  "fold_key (unquote (quote_body ''duedate'')) = ''duedate''"
  "fold_key (unquote (quote_body ''status'')) = ''status''"
  "fold_key (unquote (quote_body ''buyer'')) = ''buyer''"
  "fold_key (unquote (quote_body ''discount'')) = ''discount''"
  by code_simp+

lemma json_scan_Marshal_Invoice:
  "json_scan (json_Marshal_Invoice invoice) =
     Some (JObject
       [(quote_body ''invoiceid'', JString (quote_body (InvoiceId invoice))),
        (quote_body ''amount'', JString (quote_body (Amount invoice))),
        (quote_body ''currency'', JString (quote_body (Currency invoice))),
        (quote_body ''supplier'', JString (quote_body (Supplier invoice))),
        (quote_body ''payer'', JString (quote_body (Payer invoice))),
        (quote_body ''duedate'', JString (quote_body (DueDate invoice))),
        (quote_body ''status'', JString (quote_body (Status invoice))),
        (quote_body ''buyer'', JString (quote_body (Buyer invoice))),
        (quote_body ''discount'', JString (quote_body (Discount invoice)))])"
  by (simp add: json_scan_def json_Marshal_Invoice_def scan_quote scanLiteral_def
      scanBeginValue_def scanEndValue_def popParseState_def isSpace_def scan_eof_def)

lemma Unmarshal_Marshal_Invoice:
  "json_Unmarshal_Invoice (json_Marshal_Invoice invoice) Invoice0 =
     (None,
      \<lparr>InvoiceId = unquote (quote_body (InvoiceId invoice)),
       Amount = unquote (quote_body (Amount invoice)),
       Currency = unquote (quote_body (Currency invoice)),
       Supplier = unquote (quote_body (Supplier invoice)),
       Payer = unquote (quote_body (Payer invoice)),
       DueDate = unquote (quote_body (DueDate invoice)),
       Status = unquote (quote_body (Status invoice)),
       Buyer = unquote (quote_body (Buyer invoice)),
       Discount = unquote (quote_body (Discount invoice))\<rparr>)"
  by (simp add: json_Unmarshal_Invoice_def json_scan_Marshal_Invoice type_errors_def
      string_field_def decode_string_def invoice_keys invoice_tags_def)

text \<open>Strings of plain bytes are written and read back as they are; such are the numbers \<^verbatim>\<open>FormatFloat\<close> prints.\<close>

lemma quote_body_plain: "list_all plain s \<Longrightarrow> quote_body s = s"
proof (induction s)
  case Nil
  then show ?case by (simp add: quote_body.simps)
next
  case (Cons c cs)
  then show ?case by (subst quote_body.simps) (simp add: plain_def Let_def)
qed

lemma unquote_plain: "list_all plain s \<Longrightarrow> unquote s = s"
proof (induction s)
  case Nil
  then show ?case by (simp add: unquote.simps)
next
  case (Cons c cs)
  then show ?case by (subst unquote.simps) (simp add: plain_def Let_def)
qed

lemma digits_of_range: "0 \<le> n \<Longrightarrow> \<forall>d\<in>set (digits_of n). 0 \<le> d \<and> d \<le> 9"
proof (induction n rule: digits_of.induct)
  case (1 n)
  show ?case
  proof (cases "n < 10")
    case True
    with "1.prems" show ?thesis by (subst digits_of.simps) simp
  next
    case False
    then have "0 \<le> n div 10" by simp
    with "1.IH" [OF False] have "\<forall>d\<in>set (digits_of (n div 10)). 0 \<le> d \<and> d \<le> 9" by simp
    moreover have "0 \<le> n mod 10 \<and> n mod 10 \<le> 9" by presburger
    ultimately show ?thesis using False by (subst digits_of.simps) auto
  qed
qed

lemma plain_digit_char: "0 \<le> d \<Longrightarrow> d \<le> 9 \<Longrightarrow> plain (digit_char d)"
proof -
  assume "0 \<le> d" "d \<le> 9"
  then have "d = 0 \<or> d = 1 \<or> d = 2 \<or> d = 3 \<or> d = 4 \<or> d = 5 \<or> d = 6 \<or> d = 7 \<or> d = 8 \<or> d = 9"
    by presburger
  moreover have "map digit_char [0, 1, 2, 3, 4, 5, 6, 7, 8, 9] = ''0123456789''"
    by code_simp
  ultimately show ?thesis by (auto simp add: plain_def)
qed

lemma plain_digits: "\<forall>d\<in>set ds. 0 \<le> d \<and> d \<le> 9 \<Longrightarrow> list_all plain (map digit_char ds)"
  by (induction ds) (simp_all add: plain_digit_char)

lemma strip_zeros_subset: "set (strip_zeros ds) \<subseteq> set ds"
  by (induction ds) (auto split: list.splits if_splits)

lemma plain_show_int: "0 \<le> n \<Longrightarrow> list_all plain (show_int n)"
  using digits_of_range [of n] by (simp add: show_int_def plain_digits)

lemma plain_fmtE:
  assumes "\<forall>d\<in>set ds. 0 \<le> d \<and> d \<le> 9"
  shows "list_all plain (fmtE neg ds x)"
proof -
  have s: "list_all plain (show_int \<bar>x\<bar>)" by (simp add: plain_show_int)
  have c: "plain (CHR ''-'')" "plain (CHR ''0'')" "plain (CHR ''E'')" "plain (CHR ''+'')"
          "plain (CHR ''.'')"
    by (simp_all add: plain_def)
  show ?thesis
    using assms s c
    by (cases ds) (simp_all add: fmtE_def plain_digit_char plain_digits)
qed

lemma shortest_digits_nonneg:
  assumes "0 \<le> m"
  shows "0 \<le> fst (shortest_digits m e)"
proof -
  define N where "N = (if e \<ge> 0 then m * 2 ^ nat e else m * 5 ^ nat (- e))"
  have N: "0 \<le> N" using assms by (simp add: N_def)
  then have d: "0 \<le> N div 10 ^ k" for k
    by (simp add: pos_imp_zdiv_nonneg_iff)
  have "fst (shortest_digits m e) = N
        \<or> (\<exists>k. fst (shortest_digits m e) = N div 10 ^ k)
        \<or> (\<exists>k. fst (shortest_digits m e) = N div 10 ^ k + 1)"
    unfolding shortest_digits_def Let_def N_def [symmetric]
    by (cases "find (\<lambda>nd. roundtrips (N div 10 ^ (length (digits_of N) - nd))
                      (min e 0 + int (length (digits_of N) - nd)) m e
                    \<or> roundtrips (N div 10 ^ (length (digits_of N) - nd) + 1)
                      (min e 0 + int (length (digits_of N) - nd)) m e)
                 [1..<Suc (length (digits_of N))]")
       (simp_all only: option.case fst_conv if_distrib [of fst] split: if_splits, blast+)
  with N d show ?thesis
    by (metis add_nonneg_nonneg zero_le_one)
qed

lemma plain_FormatFloat: "nonneg_mantissa f \<Longrightarrow> list_all plain (FormatFloat f)"
proof (cases f)
  case (Finite s m e)
  assume "nonneg_mantissa f"
  with Finite have m: "0 \<le> m" by simp
  show ?thesis
  proof (cases "m = 0")
    case True
    with Finite show ?thesis by (simp add: FormatFloat_def plain_fmtE)
  next
    case False
    obtain c p where sd: "shortest_digits m e = (c, p)" by (cases "shortest_digits m e")
    with shortest_digits_nonneg [OF m, of e] have "0 \<le> c" by simp
    then have "\<forall>d\<in>set (strip_zeros (digits_of c)). 0 \<le> d \<and> d \<le> 9"
      using digits_of_range [of c] strip_zeros_subset [of "digits_of c"] by blast
    with Finite False sd show ?thesis by (simp add: FormatFloat_def Let_def plain_fmtE)
  qed
next
  case (Infinity s)
  then show ?thesis by (simp add: FormatFloat_def plain_def)
next
  case NaN
  then show ?thesis by (simp add: FormatFloat_def plain_def)
qed

lemma account_keys:
  "fold_key (unquote (quote_body ''accountno'')) = ''accountno''"
  "fold_key (unquote (quote_body ''legalentity'')) = ''legalentity''"
  "fold_key (unquote (quote_body ''currency'')) = ''currency''"
  "fold_key (unquote (quote_body ''balance'')) = ''balance''"
  by code_simp+

lemma json_scan_Marshal_Account:
  "json_scan (json_Marshal_Account a) =
     Some (JObject
       [(quote_body ''accountno'', JString (quote_body (AccountNo a))),
        (quote_body ''legalentity'', JString (quote_body (LegalEntity a))),
        (quote_body ''currency'', JString (quote_body (Account.Currency a))),
        (quote_body ''balance'', JString (quote_body (Balance a)))])"
  by (simp add: json_scan_def json_Marshal_Account_def scan_quote scanLiteral_def
      scanBeginValue_def scanEndValue_def popParseState_def isSpace_def scan_eof_def)

lemma Balance_Unmarshal_Marshal:
  "Balance (snd (json_Unmarshal_Account (json_Marshal_Account a) Account0))
     = unquote (quote_body (Balance a))"
  by (simp add: json_Unmarshal_Account_def json_scan_Marshal_Account
      string_field_def decode_string_def account_keys)

lemma stored_balance_written:
  "stored_balance (stub(key \<mapsto> json_Marshal_Account (a\<lparr>Balance := FormatFloat f\<rparr>))) key
     = unquote (quote_body (FormatFloat f))"
  by (simp add: stored_balance_def stored_account_def GetState_def bytes_of_def
      Balance_Unmarshal_Marshal)

lemma stored_balance_FormatFloat:
  "nonneg_mantissa f \<Longrightarrow>
     stored_balance (stub(key \<mapsto> json_Marshal_Account (a\<lparr>Balance := FormatFloat f\<rparr>))) key
       = FormatFloat f"
  by (simp add: stored_balance_written quote_body_plain unquote_plain plain_FormatFloat)

subsection \<open>init\_amount and its two arguments\<close>

text \<open>
  C7. The claim: an operation called with its documented number of arguments returns
  a result or an error and never crashes; \<^verbatim>\<open>init_amount\<close> in particular, with two
  arguments. In chaincode\_start.go \<^verbatim>\<open>init_amount\<close> checks that it has exactly two
  arguments and then reads \<^verbatim>\<open>args[2]\<close>: with two non-empty arguments it panics, whatever
  they are. (The revised program reads \<^verbatim>\<open>args[1]\<close>.)
\<close>

theorem init_amount_two_arguments:
  "init_amount stub [a0, a1] =
     (if a0 = [] then (Fail (EmptyArgument 1), stub)
      else if a1 = [] then (Fail (EmptyArgument 2), stub)
      else (Panic, stub))"
  by (simp add: init_amount_def index_def)

lemma init_amount_part_000_no_panic: "fst (init_amount_part_000 stub [a0, a1]) \<noteq> Panic"
  by (simp add: init_amount_part_000_def index_def Let_def split: sum.splits)

subsection \<open>transfer\_balance\<close>

lemma transfer_balance_Ok:
  assumes "transfer_balance stub args = (Ok None, stub')"
  shows "\<exists>amount balA balB.
           3 \<le> length args
         \<and> ParseFloat (args ! 2) = Inr amount
         \<and> ParseFloat (stored_balance stub (args ! 0)) = Inr balA
         \<and> ParseFloat (stored_balance stub (args ! 1)) = Inr balB
         \<and> \<not> fless (fsub balA amount) fzero
         \<and> stub' = (stub(args ! 0 \<mapsto> json_Marshal_Account
                        ((stored_account stub (args ! 0))\<lparr>Balance := FormatFloat (fsub balA amount)\<rparr>)))
                    (args ! 1 \<mapsto> json_Marshal_Account
                        ((stored_account stub (args ! 1))\<lparr>Balance := FormatFloat (fadd balB amount)\<rparr>))"
  using assms
  by (auto simp add: transfer_balance_def stored_balance_def stored_account_def PutState_def Let_def
      split: if_splits sum.splits)

text \<open>
  C1. The claim: a successful transfer between two distinct stored accounts updates both
  records as a pair, the from-balance decreased and the to-balance increased by the
  amount, and the total of the two balances is exactly what it was. In
  \<^verbatim>\<open>transfer_balance\<close> the balances are float64 values: after the transfer the two
  records hold the float64 difference and the float64 sum, each rounded to nearest, every
  other key is left alone, and the total is conserved whenever neither result is rounded.
\<close>

theorem transfer_balance_pair:
  assumes "transfer_balance stub args = (Ok None, stub')" and "args ! 0 \<noteq> args ! 1"
  shows "\<exists>amount balA balB.
           ParseFloat (args ! 2) = Inr amount
         \<and> ParseFloat (stored_balance stub (args ! 0)) = Inr balA
         \<and> ParseFloat (stored_balance stub (args ! 1)) = Inr balB
         \<and> stored_balance stub' (args ! 0) = FormatFloat (fsub balA amount)
         \<and> stored_balance stub' (args ! 1) = FormatFloat (fadd balB amount)
         \<and> (\<forall>k. k \<noteq> args ! 0 \<and> k \<noteq> args ! 1 \<longrightarrow> stub' k = stub k)
         \<and> (exact_sum balA (fneg amount) \<and> exact_sum balB amount \<longrightarrow>
              valof (fsub balA amount) + valof (fadd balB amount) = valof balA + valof balB)"
proof -
  from transfer_balance_Ok [OF assms(1)] obtain amount balA balB where
    h: "ParseFloat (args ! 2) = Inr amount"
       "ParseFloat (stored_balance stub (args ! 0)) = Inr balA"
       "ParseFloat (stored_balance stub (args ! 1)) = Inr balB"
       "stub' = (stub(args ! 0 \<mapsto> json_Marshal_Account
                        ((stored_account stub (args ! 0))\<lparr>Balance := FormatFloat (fsub balA amount)\<rparr>)))
                    (args ! 1 \<mapsto> json_Marshal_Account
                        ((stored_account stub (args ! 1))\<lparr>Balance := FormatFloat (fadd balB amount)\<rparr>))"
    by blast
  have c: "exact_sum balA (fneg amount) \<and> exact_sum balB amount \<longrightarrow>
              valof (fsub balA amount) + valof (fadd balB amount) = valof balA + valof balB"
    by (simp add: valof_fsub_exact valof_fadd_exact)
  have sw: "stub' = (stub(args ! 1 \<mapsto> json_Marshal_Account
                        ((stored_account stub (args ! 1))\<lparr>Balance := FormatFloat (fadd balB amount)\<rparr>)))
                    (args ! 0 \<mapsto> json_Marshal_Account
                        ((stored_account stub (args ! 0))\<lparr>Balance := FormatFloat (fsub balA amount)\<rparr>))"
    using h(4) assms(2) by (simp add: fun_upd_twist)
  have a: "stored_balance stub' (args ! 0) = FormatFloat (fsub balA amount)"
    by (subst sw) (rule stored_balance_FormatFloat [OF nonneg_fsub])
  have b: "stored_balance stub' (args ! 1) = FormatFloat (fadd balB amount)"
    by (subst h(4)) (rule stored_balance_FormatFloat [OF nonneg_fadd])
  have o: "\<forall>k. k \<noteq> args ! 0 \<and> k \<noteq> args ! 1 \<longrightarrow> stub' k = stub k"
    using h(4) by simp
  from h(1,2,3) a b o c show ?thesis by blast
qed

theorem transfer_balance_pair_witness:
  "fst (transfer_balance (two_accounts ''5E+02'' ''0E+00'') [''A001'', ''B001'', ''200.00'']) = Ok None
   \<and> stored_balance (snd (transfer_balance (two_accounts ''5E+02'' ''0E+00'') [''A001'', ''B001'', ''200.00''])) ''A001'' = ''3E+02''
   \<and> stored_balance (snd (transfer_balance (two_accounts ''5E+02'' ''0E+00'') [''A001'', ''B001'', ''200.00''])) ''B001'' = ''2E+02''
   \<and> exact_sum (Finite False 125 2) (fneg (Finite False 25 3)) \<and> exact_sum (Finite False 0 0) (Finite False 25 3)
   \<and> valof (fsub (Finite False 125 2) (Finite False 25 3)) + valof (fadd (Finite False 0 0) (Finite False 25 3))
       = valof (Finite False 125 2) + valof (Finite False 0 0)"
proof -
  let ?L = "two_accounts ''5E+02'' ''0E+00''"
  let ?args = "[''A001'', ''B001'', ''200.00'']"
  have ev: "case transfer_balance ?L ?args of
              (r, s) \<Rightarrow> r = Ok None \<and> stored_balance s ''A001'' = ''3E+02''
                        \<and> stored_balance s ''B001'' = ''2E+02''"
    by code_simp
  have p: "ParseFloat (?args ! 2) = Inr (Finite False 25 3)"
          "ParseFloat (stored_balance ?L (?args ! 0)) = Inr (Finite False 125 2)"
          "ParseFloat (stored_balance ?L (?args ! 1)) = Inr (Finite False 0 0)"
    by code_simp+
  have x: "exact_sum (Finite False 125 2) (fneg (Finite False 25 3))"
          "exact_sum (Finite False 0 0) (Finite False 25 3)"
    by code_simp+
  from ev have ok: "transfer_balance ?L ?args = (Ok None, snd (transfer_balance ?L ?args))"
    by (cases "transfer_balance ?L ?args") simp
  have ne: "?args ! 0 \<noteq> ?args ! 1" by simp
  from transfer_balance_pair [OF ok ne] p x
  have "valof (fsub (Finite False 125 2) (Finite False 25 3)) + valof (fadd (Finite False 0 0) (Finite False 25 3))
       = valof (Finite False 125 2) + valof (Finite False 0 0)"
    by auto
  with ev x show ?thesis by (cases "transfer_balance ?L ?args") simp
qed

text \<open>
  With a balance of \<open>10^16\<close> the difference \<open>10^16 - 1\<close> is not a double and rounds back
  to \<open>10^16\<close>: after a successful transfer of 1 the sender has what it had and the
  receiver has 1 more.
\<close>

theorem rounding_counterexample:
  "stored_balance (two_accounts ''1E+16'' ''1E+00'') ''A001'' = ''1E+16''
   \<and> stored_balance (two_accounts ''1E+16'' ''1E+00'') ''B001'' = ''1E+00''
   \<and> (case transfer_balance (two_accounts ''1E+16'' ''1E+00'') [''A001'', ''B001'', ''1''] of
        (r, s) \<Rightarrow> r = Ok None \<and> stored_balance s ''A001'' = ''1E+16''
                  \<and> stored_balance s ''B001'' = ''2E+00'')"
  by code_simp

text \<open>
  \<^verbatim>\<open>transfer\<close> in chaincode\_start.go stores both new balances under the sender's
  key, the second over the first: the receiver's balance is never written. The revised
  program stores the second under the receiver's key.
\<close>

lemma transfer_receiver_unchanged:
  "args ! 0 \<noteq> args ! 1 \<Longrightarrow> snd (transfer stub args) (args ! 1) = stub (args ! 1)"
  by (simp add: transfer_def PutState_def Let_def split: sum.splits)

lemma transfer_part_000_receiver:
  assumes "transfer_part_000 stub args = (Ok None, stub')"
  shows "\<exists>amount amountB. ParseFloat (args ! 2) = Inr amount
           \<and> ParseFloat (bytes_of (GetState stub (args ! 1))) = Inr amountB
           \<and> stub' (args ! 1) = Some (FormatFloat (fadd amountB amount))"
  using assms
  by (auto simp add: transfer_part_000_def PutState_def Let_def split: if_splits sum.splits)

text \<open>
  C9. The claim: a transfer from an account to itself, with \<open>b - x \<ge> 0\<close>, succeeds and
  leaves the balance \<open>b + x\<close>, the second write overwriting the first, so that the total
  strictly increases by \<open>x\<close>. The first part holds, with the float64 sum for \<open>b + x\<close>;
  the balance is strictly greater than before when \<open>x\<close> is positive and the sum exact.
\<close>

theorem transfer_balance_self:
  assumes "3 \<le> length args" and "args ! 0 = args ! 1"
    and "ParseFloat (args ! 2) = Inr x"
    and "ParseFloat (stored_balance stub (args ! 0)) = Inr b"
    and "\<not> fless (fsub b x) fzero"
  shows "fst (transfer_balance stub args) = Ok None
         \<and> stored_balance (snd (transfer_balance stub args)) (args ! 0) = FormatFloat (fadd b x)
         \<and> (\<forall>k. k \<noteq> args ! 0 \<longrightarrow> snd (transfer_balance stub args) k = stub k)
         \<and> (exact_sum b x \<and> fless fzero x \<longrightarrow> valof b < valof (fadd b x))"
proof -
  have s: "exact_sum b x \<and> fless fzero x \<longrightarrow> valof b < valof (fadd b x)"
  proof
    assume e: "exact_sum b x \<and> fless fzero x"
    then have "is_finite x" by (cases b; cases x) (simp_all add: exact_sum_def)
    with e have "0 < valof x" by (simp add: valof_pos)
    with e show "valof b < valof (fadd b x)" by (simp add: valof_fadd_exact)
  qed
  have t: "transfer_balance stub args =
           (Ok None, stub(args ! 0 \<mapsto> json_Marshal_Account
              ((stored_account stub (args ! 0))\<lparr>Balance := FormatFloat (fadd b x)\<rparr>)))"
    using assms
    by (simp add: transfer_balance_def stored_balance_def stored_account_def PutState_def Let_def)
  have r: "stored_balance (stub(args ! 0 \<mapsto> json_Marshal_Account
              ((stored_account stub (args ! 0))\<lparr>Balance := FormatFloat (fadd b x)\<rparr>))) (args ! 0)
            = FormatFloat (fadd b x)"
    by (rule stored_balance_FormatFloat [OF nonneg_fadd])
  from s t r show ?thesis by simp
qed

theorem transfer_balance_self_witness:
  "ParseFloat ''5'' = Inr (Finite False 5 0)
   \<and> ParseFloat (stored_balance (two_accounts ''5E+02'' ''0E+00'') ''A001'') = Inr (Finite False 125 2)
   \<and> \<not> fless (fsub (Finite False 125 2) (Finite False 5 0)) fzero
   \<and> fst (transfer_balance (two_accounts ''5E+02'' ''0E+00'') [''A001'', ''A001'', ''5'']) = Ok None
   \<and> stored_balance (snd (transfer_balance (two_accounts ''5E+02'' ''0E+00'') [''A001'', ''A001'', ''5'']))
        ''A001'' = ''5.05E+02''
   \<and> valof (Finite False 125 2) < valof (fadd (Finite False 125 2) (Finite False 5 0))"
proof -
  let ?L = "two_accounts ''5E+02'' ''0E+00''"
  let ?args = "[''A001'', ''A001'', ''5'']"
  have p: "ParseFloat (?args ! 2) = Inr (Finite False 5 0)"
          "ParseFloat (stored_balance ?L (?args ! 0)) = Inr (Finite False 125 2)"
    by code_simp+
  have c: "\<not> fless (fsub (Finite False 125 2) (Finite False 5 0)) fzero"
          "FormatFloat (fadd (Finite False 125 2) (Finite False 5 0)) = ''5.05E+02''"
          "exact_sum (Finite False 125 2) (Finite False 5 0)"
          "fless fzero (Finite False 5 0)"
    by code_simp+
  have l: "3 \<le> length ?args" and e: "?args ! 0 = ?args ! 1" by simp_all
  from transfer_balance_self [OF l e p c(1)] p c show ?thesis by simp
qed

text \<open>With the amount 0 the balance stays what it was, and with the amount -5 it goes down.\<close>

theorem self_transfer_counterexample:
  "stored_balance (two_accounts ''5E+02'' ''0E+00'') ''A001'' = ''5E+02''
   \<and> (case transfer_balance (two_accounts ''5E+02'' ''0E+00'') [''A001'', ''A001'', ''0''] of
        (r, s) \<Rightarrow> r = Ok None \<and> stored_balance s ''A001'' = ''5E+02'')
   \<and> (case transfer_balance (two_accounts ''5E+02'' ''0E+00'') [''A001'', ''A001'', ''-5''] of
        (r, s) \<Rightarrow> r = Ok None \<and> stored_balance s ''A001'' = ''4.95E+02'')"
  by code_simp

text \<open>
  C3. The claim: a transfer whose amount exceeds the stored balance of the sender fails
  with the insufficient-funds error and leaves both balances as they were. Both
  \<^verbatim>\<open>transfer_balance\<close> and \<^verbatim>\<open>transfer\<close> read the balance of the receiver as a number
  before they compare: such a transfer always fails and writes nothing, with the
  insufficient-funds error when the receiver's stored balance is a number, and with the
  error of \<^verbatim>\<open>ParseFloat\<close> when it is not, as when the receiver holds nothing. The float64
  difference of a smaller and a greater number is negative, never a rounded zero.
\<close>

theorem insufficient_funds:
  "(3 \<le> length args
     \<and> ParseFloat (args ! 2) = Inr amount
     \<and> ParseFloat (stored_balance stub (args ! 0)) = Inr balA
     \<and> fless balA amount
    \<longrightarrow> transfer_balance stub args =
          (Fail (case ParseFloat (stored_balance stub (args ! 1)) of
                   Inr balB \<Rightarrow> NotEnoughBalance (args ! 0)
                 | Inl e \<Rightarrow> StrconvError e),
           stub))
   \<and> (3 \<le> length args
     \<and> ParseFloat (args ! 2) = Inr amount
     \<and> ParseFloat (bytes_of (GetState stub' (args ! 0))) = Inr balA
     \<and> fless balA amount
    \<longrightarrow> transfer stub' args =
          (Fail (case ParseFloat (bytes_of (GetState stub' (args ! 1))) of
                   Inr balB \<Rightarrow> NotEnoughBalance (args ! 0)
                 | Inl e \<Rightarrow> StrconvError e),
           stub'))"
  by (auto simp add: transfer_balance_def transfer_def stored_balance_def stored_account_def
      Let_def fless_fsub split: sum.splits)

theorem insufficient_funds_witness:
  "ParseFloat ''999.00'' = Inr (Finite False 999 0)
   \<and> ParseFloat (stored_balance (two_accounts ''3E+02'' ''2E+02'') ''A001'') = Inr (Finite False 75 2)
   \<and> ParseFloat (stored_balance (two_accounts ''3E+02'' ''2E+02'') ''B001'') = Inr (Finite False 25 3)
   \<and> ParseFloat (bytes_of (GetState (raw_balances ''3E+02'' ''2E+02'') ''A001'')) = Inr (Finite False 75 2)
   \<and> ParseFloat (bytes_of (GetState (raw_balances ''3E+02'' ''2E+02'') ''B001'')) = Inr (Finite False 25 3)
   \<and> fless (Finite False 75 2) (Finite False 999 0)
   \<and> transfer_balance (two_accounts ''3E+02'' ''2E+02'') [''A001'', ''B001'', ''999.00'']
        = (Fail (NotEnoughBalance ''A001''), two_accounts ''3E+02'' ''2E+02'')
   \<and> transfer (raw_balances ''3E+02'' ''2E+02'') [''A001'', ''B001'', ''999.00'']
        = (Fail (NotEnoughBalance ''A001''), raw_balances ''3E+02'' ''2E+02'')"
proof -
  let ?L = "two_accounts ''3E+02'' ''2E+02''"
  let ?R = "raw_balances ''3E+02'' ''2E+02''"
  let ?args = "[''A001'', ''B001'', ''999.00'']"
  have p: "ParseFloat (?args ! 2) = Inr (Finite False 999 0)"
          "ParseFloat (stored_balance ?L (?args ! 0)) = Inr (Finite False 75 2)"
          "ParseFloat (stored_balance ?L (?args ! 1)) = Inr (Finite False 25 3)"
          "ParseFloat (bytes_of (GetState ?R (?args ! 0))) = Inr (Finite False 75 2)"
          "ParseFloat (bytes_of (GetState ?R (?args ! 1))) = Inr (Finite False 25 3)"
          "fless (Finite False 75 2) (Finite False 999 0)"
    by code_simp+
  have l: "3 \<le> length ?args" by simp
  from insufficient_funds [of ?args "Finite False 999 0" ?L "Finite False 75 2" ?R] p l
  show ?thesis by simp
qed

text \<open>When the receiver holds nothing its balance is the empty string, and the error is that of \<^verbatim>\<open>ParseFloat\<close>.\<close>

lemma transfer_balance_absent_receiver:
  assumes "3 \<le> length args" and "ParseFloat (args ! 2) = Inr amount"
    and "ParseFloat (stored_balance stub (args ! 0)) = Inr balA"
    and "stub (args ! 1) = None"
  shows "transfer_balance stub args = (Fail (StrconvError ErrSyntax), stub)"
proof -
  have "ParseFloat [] = Inl ErrSyntax" by code_simp
  moreover have "stored_balance stub (args ! 1) = []"
    using assms(4)
    by (simp add: stored_balance_def stored_account_def GetState_def bytes_of_def
        json_Unmarshal_Account_def json_scan_def scan_eof_def scanBeginValue_def isSpace_def
        Account0_def)
  ultimately show ?thesis
    using assms(1,2,3)
    by (simp add: transfer_balance_def stored_balance_def stored_account_def Let_def)
qed

text \<open>
  A001 holds 300 and B001 holds nothing: a transfer of 999 from A001 to B001 exceeds the
  balance of A001, and fails with the syntax error of \<^verbatim>\<open>ParseFloat\<close> on the empty balance
  of B001, not with the insufficient-funds error.
\<close>

theorem absent_receiver_counterexample:
  "ParseFloat ''999.00'' = Inr (Finite False 999 0)
   \<and> ParseFloat (stored_balance (one_account ''3E+02'') ''A001'') = Inr (Finite False 75 2)
   \<and> fless (Finite False 75 2) (Finite False 999 0)
   \<and> one_account ''3E+02'' ''B001'' = None
   \<and> transfer_balance (one_account ''3E+02'') [''A001'', ''B001'', ''999.00'']
        = (Fail (StrconvError ErrSyntax), one_account ''3E+02'')
   \<and> Fail (StrconvError ErrSyntax) \<noteq> Fail (NotEnoughBalance ''A001'')"
proof -
  let ?L = "one_account ''3E+02''"
  let ?args = "[''A001'', ''B001'', ''999.00'']"
  have p: "ParseFloat (?args ! 2) = Inr (Finite False 999 0)"
          "ParseFloat (stored_balance ?L (?args ! 0)) = Inr (Finite False 75 2)"
          "fless (Finite False 75 2) (Finite False 999 0)"
    by code_simp+
  have n: "?L (?args ! 1) = None" by (simp add: one_account_def)
  have l: "3 \<le> length ?args" by simp
  from transfer_balance_absent_receiver [OF l p(1) p(2) n] p n
  show ?thesis by simp
qed

text \<open>
  C4. The claim: an amount that is not a valid positive decimal, a negative number in
  particular, fails with a validation error and changes no balance. The code has no
  test of the sign: the validation error is returned exactly when \<^verbatim>\<open>ParseFloat\<close>
  rejects the amount, and then nothing is written.
\<close>

theorem transfer_balance_validation:
  assumes "3 \<le> length args"
  shows "((\<exists>e. ParseFloat (args ! 2) = Inl e) \<longrightarrow>
            transfer_balance stub args = (Fail (NotNumeric 3), stub))
         \<and> ((\<exists>amount. ParseFloat (args ! 2) = Inr amount) \<longrightarrow>
            fst (transfer_balance stub args) \<noteq> Fail (NotNumeric 3))"
  using assms
  by (auto simp add: transfer_balance_def Let_def split: sum.splits)

theorem transfer_balance_validation_witness:
  "ParseFloat ''abc'' = Inl ErrSyntax
   \<and> transfer_balance (two_accounts ''5E+02'' ''0E+00'') [''A001'', ''B001'', ''abc'']
        = (Fail (NotNumeric 3), two_accounts ''5E+02'' ''0E+00'')
   \<and> ParseFloat ''-5'' = Inr (Finite True 5 0)
   \<and> fst (transfer_balance (two_accounts ''5E+02'' ''0E+00'') [''A001'', ''B001'', ''-5'']) \<noteq> Fail (NotNumeric 3)"
proof -
  let ?L = "two_accounts ''5E+02'' ''0E+00''"
  have p: "ParseFloat ([''A001'', ''B001'', ''abc''] ! 2) = Inl ErrSyntax"
          "ParseFloat ([''A001'', ''B001'', ''-5''] ! 2) = Inr (Finite True 5 0)"
    by code_simp+
  have l: "3 \<le> length [''A001'', ''B001'', ''abc'']" "3 \<le> length [''A001'', ''B001'', ''-5'']"
    by simp_all
  from transfer_balance_validation [OF l(1), of ?L] transfer_balance_validation [OF l(2), of ?L] p
  show ?thesis by simp
qed

text \<open>A transfer of -5 succeeds and moves 5 the other way, leaving the receiver below zero.\<close>

theorem negative_amount_counterexample:
  "stored_balance (two_accounts ''5E+02'' ''0E+00'') ''A001'' = ''5E+02''
   \<and> stored_balance (two_accounts ''5E+02'' ''0E+00'') ''B001'' = ''0E+00''
   \<and> (case transfer_balance (two_accounts ''5E+02'' ''0E+00'') [''A001'', ''B001'', ''-5''] of
        (r, s) \<Rightarrow> r = Ok None \<and> stored_balance s ''A001'' = ''5.05E+02''
                  \<and> stored_balance s ''B001'' = ''-5E+00'')"
  by code_simp

subsection \<open>init\_account\<close>

lemma json_Unmarshal_Account_nil: "json_Unmarshal_Account [] res = (Some SyntaxError, res)"
  by (simp add: json_Unmarshal_Account_def json_scan_def scan_eof_def scanBeginValue_def isSpace_def)

lemma stored_account_absent: "stub key = None \<Longrightarrow> stored_account stub key = Account0"
  by (simp add: stored_account_def GetState_def bytes_of_def json_Unmarshal_Account_nil)

text \<open>
  C6. The claim: \<^verbatim>\<open>init_account\<close> fails with the already-exists error exactly when the
  value stored under the account number decodes to a record whose account number is the
  requested one; a value with another account number, or no value, counts as absent, and
  the account is created over it. Here for arguments that pass the checks before the
  look-up (four non-empty strings, the last a number).
\<close>

theorem init_account_exists:
  assumes "accountNo \<noteq> []" and "legalEntity \<noteq> []" and "currency \<noteq> []" and "amount \<noteq> []"
    and "ParseFloat amount = Inr f"
  shows "((fst (init_account ToLower stub [accountNo, legalEntity, currency, amount]) = Fail AccountExists)
           = (AccountNo (stored_account stub accountNo) = accountNo))
       \<and> (AccountNo (stored_account stub accountNo) \<noteq> accountNo \<longrightarrow>
           fst (init_account ToLower stub [accountNo, legalEntity, currency, amount]) = Ok None
         \<and> (accountNo \<noteq> accountIndexStr \<longrightarrow>
              snd (init_account ToLower stub [accountNo, legalEntity, currency, amount]) accountNo
                = Some (account_str accountNo (ToLower legalEntity) currency (FormatFloat f))))
       \<and> (stub accountNo = None \<longrightarrow> AccountNo (stored_account stub accountNo) \<noteq> accountNo)"
proof -
  have "stub accountNo = None \<longrightarrow> AccountNo (stored_account stub accountNo) \<noteq> accountNo"
    using assms(1) by (auto simp add: stored_account_absent Account0_def)
  moreover have "(fst (init_account ToLower stub [accountNo, legalEntity, currency, amount]) = Fail AccountExists)
           = (AccountNo (stored_account stub accountNo) = accountNo)"
    using assms by (simp add: init_account_def stored_account_def Let_def)
  moreover have "AccountNo (stored_account stub accountNo) \<noteq> accountNo \<longrightarrow>
           fst (init_account ToLower stub [accountNo, legalEntity, currency, amount]) = Ok None
         \<and> (accountNo \<noteq> accountIndexStr \<longrightarrow>
              snd (init_account ToLower stub [accountNo, legalEntity, currency, amount]) accountNo
                = Some (account_str accountNo (ToLower legalEntity) currency (FormatFloat f)))"
    using assms by (simp add: init_account_def stored_account_def Let_def PutState_def)
  ultimately show ?thesis by blast
qed

theorem init_account_exists_witness:
  "ParseFloat ''7'' = Inr (Finite False 7 0)
   \<and> AccountNo (stored_account (two_accounts ''5E+02'' ''0E+00'') ''A001'') = ''A001''
   \<and> fst (init_account (map lower) (two_accounts ''5E+02'' ''0E+00'') [''A001'', ''Carol'', ''USD'', ''7''])
        = Fail AccountExists
   \<and> AccountNo (stored_account [''C001'' \<mapsto> json_Marshal_Account (account ''A001'' ''5E+02'')] ''C001'') = ''A001''
   \<and> fst (init_account (map lower) [''C001'' \<mapsto> json_Marshal_Account (account ''A001'' ''5E+02'')]
             [''C001'', ''Carol'', ''USD'', ''7'']) = Ok None
   \<and> snd (init_account (map lower) [''C001'' \<mapsto> json_Marshal_Account (account ''A001'' ''5E+02'')]
             [''C001'', ''Carol'', ''USD'', ''7'']) ''C001''
        = Some (account_str ''C001'' ''carol'' ''USD'' ''7E+00'')"
proof -
  let ?L = "two_accounts ''5E+02'' ''0E+00''"
  let ?F = "[''C001'' \<mapsto> json_Marshal_Account (account ''A001'' ''5E+02'')]"
  have p: "ParseFloat ''7'' = Inr (Finite False 7 0)"
          "AccountNo (stored_account ?L ''A001'') = ''A001''"
          "AccountNo (stored_account ?F ''C001'') = ''A001''"
          "FormatFloat (Finite False 7 0) = ''7E+00''"
          "map lower ''Carol'' = ''carol''"
          "''C001'' \<noteq> accountIndexStr"
    by code_simp+
  have n: "''A001'' \<noteq> []" "''C001'' \<noteq> []" "''Carol'' \<noteq> []" "''USD'' \<noteq> []" "''7'' \<noteq> []"
    by simp_all
  from init_account_exists [OF n(1) n(3) n(4) n(5) p(1), of "map lower" ?L]
       init_account_exists [OF n(2) n(3) n(4) n(5) p(1), of "map lower" ?F] p
  show ?thesis by simp
qed

subsection \<open>The invoice record create\_invoice puts together\<close>

lemmas scan_defs = scanEndValue_def scanBeginValue_def scanBeginString_def scanEndNumber_def
  scanState0_def scanESign_def scanLiteral_def popParseState_def isSpace_def is_digit_def is_hex_def

text \<open>
  Whatever the scanner has read, a comma, a space and a closing brace do not end a valid
  text: inside a string they are part of the string, which is then not closed; after a
  json_member of an object the comma asks for another key; after an element of an array it
  asks for another value; anywhere else the comma is an error.
\<close>

lemma scan_step_comma_space_brace:
  "scan_eof (scan_step (scan_step (scan_step sc (CHR '','')) (CHR '' '')) (CHR ''}'')) = None"
proof (cases sc)
  case ScanError
  then show ?thesis by (simp add: scan_eof_def)
next
  case (Scan stp st tok res)
  show ?thesis
  proof (cases st)
    case Nil
    with Scan show ?thesis
      by (cases stp) (simp_all add: scan_eof_def scan_defs)
  next
    case (Cons fr rest)
    show ?thesis
    proof (cases fr)
      case (Obj k fs key)
      with Scan Cons show ?thesis
        by (cases stp; cases k) (simp_all add: scan_eof_def scan_defs)
    next
      case (Arr es)
      with Scan Cons show ?thesis
        by (cases stp) (simp_all add: scan_eof_def scan_defs)
    qed
  qed
qed

lemma json_scan_trailing_comma: "json_scan (xs @ '', }'') = None"
  by (simp add: json_scan_def scan_step_comma_space_brace)

lemma invoice_json_trailing_comma: "\<exists>xs. invoice_json a0 a1 a2 a3 = xs @ '', }''"
proof -
  have "json_member ''discount'' ''UNDEFINED'' @ ''}''
          = butlast (butlast (json_member ''discount'' ''UNDEFINED'')) @ '', }''"
    by (simp add: json_member_def)
  then show ?thesis
    unfolding invoice_json_def Let_def by (metis append.assoc)
qed

lemma json_scan_invoice_json: "json_scan (invoice_json a0 a1 a2 a3) = None"
  using invoice_json_trailing_comma [of a0 a1 a2 a3] json_scan_trailing_comma by auto

text \<open>\<^verbatim>\<open>Init\<close> stores each participant's role under the participant's name, among the invoices.\<close>

lemma Init_stores_roles:
  "name \<noteq> ''invoiceIDs'' \<Longrightarrow> snd (Init stub [name, role]) name = Some role"
  by (simp add: Init_def add_particants_def PutState_def Let_def)

text \<open>
  C10. The claim: \<^verbatim>\<open>create_invoice\<close> tests for a duplicate before it tests the roles,
  so that an invoice id that is an occupied key (a participant's name, say) fails with
  the already-exists error whoever the caller is. The test is never reached: the text
  \<^verbatim>\<open>create_invoice\<close> puts together ends in a comma before the closing brace,
  \<^verbatim>\<open>json.Unmarshal\<close> rejects it, and every call with four arguments returns
  "Invalid JSON object" and writes nothing.
\<close>

theorem create_invoice_invalid_json:
  "create_invoice stub (a0 # a1 # a2 # a3 # rest) = (Fail InvalidJSON, stub)"
  by (simp add: create_invoice_def index_def json_Unmarshal_Invoice_def json_scan_invoice_json)

subsection \<open>Who may read an invoice\<close>

text \<open>
  C5. The claim: \<^verbatim>\<open>get_invoice_details\<close> returns the whole record to a caller who is
  the supplier, the buyer or the payer of the invoice, and fails with permission denied
  for any other caller. So it is in chaincode\_start.go. In accounts.go the test of the
  payer is missing: the supplier and the buyer alone may read, and the payer of an
  invoice is denied.
\<close>

theorem get_invoice_details_callers:
  "get_invoice_details invoice caller =
     (if caller = Supplier invoice \<or> caller = Buyer invoice \<or> caller = Payer invoice
      then Ok (Some (json_Marshal_Invoice invoice))
      else Fail PermissionDenied_get_invoice_details)
   \<and> get_invoice_details_accounts invoice' caller affiliation =
     (if caller = Invoice_accounts.Supplier invoice' \<or> caller = Invoice_accounts.Buyer invoice'
      then Ok (Some (json_Marshal_Invoice_accounts invoice'))
      else Fail PermissionDenied_get_invoice_details)"
  by (auto simp add: get_invoice_details_def get_invoice_details_accounts_def)

text \<open>
  \<^verbatim>\<open>create_invoice\<close> of accounts.go stores no invoice, its text ending in a comma before
  the brace as well: the invoices of that program's ledger are those \<^verbatim>\<open>Init\<close> was deployed
  with, under the keys and with the texts of its arguments.
\<close>

lemma invoice_json_accounts_trailing_comma: "\<exists>xs. invoice_json_accounts a0 a1 caller = xs @ '', }''"
proof -
  have "json_member ''discount'' ''UNDEFINED'' @ ''}''
          = butlast (butlast (json_member ''discount'' ''UNDEFINED'')) @ '', }''"
    by (simp add: json_member_def)
  then show ?thesis
    unfolding invoice_json_accounts_def Let_def by (metis append.assoc)
qed

lemma create_invoice_accounts_invalid_json:
  "create_invoice_accounts stub caller role (a0 # a1 # rest) = (Fail InvalidJSON, stub)"
proof -
  have "json_scan (invoice_json_accounts a0 a1 caller) = None"
    using invoice_json_accounts_trailing_comma [of a0 a1 caller] json_scan_trailing_comma by auto
  then show ?thesis
    by (simp add: create_invoice_accounts_def index_def json_Unmarshal_Invoice_accounts_def)
qed

lemma Invoke_create_invoice_accounts_writes_nothing:
  "snd (Invoke_create_invoice_accounts stub username args) = stub"
proof (cases args)
  case Nil
  then show ?thesis
    by (simp add: Invoke_create_invoice_accounts_def create_invoice_accounts_def index_def)
next
  case (Cons a0 rest)
  show ?thesis
  proof (cases rest)
    case Nil
    with Cons show ?thesis
      by (simp add: Invoke_create_invoice_accounts_def create_invoice_accounts_def index_def)
  next
    case (Cons a1 rest')
    with \<open>args = a0 # rest\<close> show ?thesis
      by (simp add: Invoke_create_invoice_accounts_def create_invoice_accounts_invalid_json)
  qed
qed

text \<open>
  The program of accounts.go deployed with invoice INV1 (supplier test\_user0, payer
  test\_user1, buyer test\_user2) and the three participants: the query of the supplier
  and that of the buyer return the record, the query of the payer is denied. The query
  of chaincode\_start.go returns the record to the payer of its invoice.
\<close>

lemma payer_denied_deployed:
  "Query_get_invoice_details_accounts deployed_ledger ''test_user0'' [''INV1'']
     = Ok (Some (json_Marshal_Invoice_accounts invoice2))
   \<and> Query_get_invoice_details_accounts deployed_ledger ''test_user2'' [''INV1'']
     = Ok (Some (json_Marshal_Invoice_accounts invoice2))
   \<and> Invoice_accounts.Payer (fst (retrieve_invoice_accounts deployed_ledger ''INV1'')) = ''test_user1''
   \<and> Query_get_invoice_details_accounts deployed_ledger ''test_user1'' [''INV1'']
     = Fail PermissionDenied_get_invoice_details
   \<and> Query_get_invoice_details invoice_ledger [''INV1'', ''test_user1'']
     = Ok (Some (json_Marshal_Invoice invoice1))"
  by code_simp

text \<open>The query reads the invoice from the ledger and passes it on, when it decodes without an error.\<close>

lemma Query_get_invoice_details_stored:
  "retrieve_invoice stub invoiceId = (invoice, False) \<Longrightarrow>
     Query_get_invoice_details stub [invoiceId, caller] = get_invoice_details invoice caller"
  by (simp add: Query_get_invoice_details_def)

subsection \<open>The status of an invoice\<close>

lemma status_strings: "unquote (quote_body ''1'') = ''1''" "unquote (quote_body ''2'') = ''2''"
  by code_simp+

lemma Status_saved:
  "Status (fst (retrieve_invoice (save_changes stub invoice) (InvoiceId invoice)))
     = unquote (quote_body (Status invoice))"
  by (simp add: retrieve_invoice_def save_changes_def GetState_def PutState_def bytes_of_def
      Unmarshal_Marshal_Invoice)

text \<open>
  C2. The claim: the status of an invoice only moves forward, one step at a time, and
  \<^verbatim>\<open>accept_trade\<close> on an invoice that is not OFFERED fails with an invalid-state error
  and changes nothing. Neither \<^verbatim>\<open>offer_trade\<close> nor \<^verbatim>\<open>accept_trade\<close> reads the
  status: after the supplier's offer the stored invoice has status 1, after a buyer's
  acceptance it has status 2, whatever the status was; the only failure is permission
  denied, and it writes nothing.
\<close>

theorem trades_ignore_status:
  "(get_role stub caller = BUYER \<longrightarrow>
      fst (accept_trade stub [invoiceId, caller]) = Ok None
    \<and> Status (fst (retrieve_invoice (snd (accept_trade stub [invoiceId, caller]))
                (InvoiceId (fst (retrieve_invoice stub invoiceId))))) = ''2'')
   \<and> (get_role stub caller \<noteq> BUYER \<longrightarrow>
      accept_trade stub [invoiceId, caller]
        = (Fail (PermissionDenied_offer_trade (get_role stub caller) BUYER), stub))
   \<and> (caller = Supplier (fst (retrieve_invoice stub invoiceId)) \<longrightarrow>
      fst (offer_trade stub [invoiceId, discount, caller]) = Ok None
    \<and> Status (fst (retrieve_invoice (snd (offer_trade stub [invoiceId, discount, caller]))
                (InvoiceId (fst (retrieve_invoice stub invoiceId))))) = ''1'')
   \<and> (caller \<noteq> Supplier (fst (retrieve_invoice stub invoiceId)) \<longrightarrow>
      offer_trade stub [invoiceId, discount, caller]
        = (Fail (PermissionDenied_offer_trade caller
             (Supplier (fst (retrieve_invoice stub invoiceId)))), stub))"
proof -
  let ?invoice = "fst (retrieve_invoice stub invoiceId)"
  have a: "Status (fst (retrieve_invoice
              (save_changes stub (?invoice\<lparr>Buyer := caller, Status := ''2''\<rparr>))
              (InvoiceId ?invoice))) = ''2''"
    using Status_saved [of stub "?invoice\<lparr>Buyer := caller, Status := ''2''\<rparr>"]
    by (simp add: status_strings)
  have b: "Status (fst (retrieve_invoice
              (save_changes stub (?invoice\<lparr>Status := ''1'', Discount := discount\<rparr>))
              (InvoiceId ?invoice))) = ''1''"
    using Status_saved [of stub "?invoice\<lparr>Status := ''1'', Discount := discount\<rparr>"]
    by (simp add: status_strings)
  show ?thesis
    using a b by (simp add: accept_trade_def offer_trade_def index_def Let_def)
qed

theorem trades_ignore_status_witness:
  "get_role invoice_ledger ''test_user2'' = BUYER
   \<and> InvoiceId (fst (retrieve_invoice invoice_ledger ''INV1'')) = ''INV1''
   \<and> Status (fst (retrieve_invoice invoice_ledger ''INV1'')) = ''0''
   \<and> fst (accept_trade invoice_ledger [''INV1'', ''test_user2'']) = Ok None
   \<and> Status (fst (retrieve_invoice (snd (accept_trade invoice_ledger [''INV1'', ''test_user2'']))
        ''INV1'')) = ''2''
   \<and> get_role invoice_ledger ''test_user1'' \<noteq> BUYER
   \<and> accept_trade invoice_ledger [''INV1'', ''test_user1'']
        = (Fail (PermissionDenied_offer_trade ''payer'' BUYER), invoice_ledger)
   \<and> Supplier (fst (retrieve_invoice invoice_ledger ''INV1'')) = ''test_user0''
   \<and> fst (offer_trade invoice_ledger [''INV1'', ''5.00'', ''test_user0'']) = Ok None
   \<and> Status (fst (retrieve_invoice (snd (offer_trade invoice_ledger [''INV1'', ''5.00'', ''test_user0'']))
        ''INV1'')) = ''1''
   \<and> offer_trade invoice_ledger [''INV1'', ''5.00'', ''test_user2'']
        = (Fail (PermissionDenied_offer_trade ''test_user2'' ''test_user0''), invoice_ledger)"
proof -
  have p: "get_role invoice_ledger ''test_user2'' = BUYER"
          "get_role invoice_ledger ''test_user1'' = ''payer''"
          "''payer'' \<noteq> BUYER"
          "InvoiceId (fst (retrieve_invoice invoice_ledger ''INV1'')) = ''INV1''"
          "Status (fst (retrieve_invoice invoice_ledger ''INV1'')) = ''0''"
          "Supplier (fst (retrieve_invoice invoice_ledger ''INV1'')) = ''test_user0''"
    by code_simp+
  from trades_ignore_status [of invoice_ledger "''test_user2''" "''INV1''" "''5.00''"]
       trades_ignore_status [of invoice_ledger "''test_user1''" "''INV1''" "''5.00''"]
       trades_ignore_status [of invoice_ledger "''test_user0''" "''INV1''" "''5.00''"]
       p
  show ?thesis by simp
qed

text \<open>
  An invoice in status 0 is accepted by a buyer and is then in status 2; the supplier's
  offer afterwards puts it back to status 1.
\<close>

theorem accept_before_offer_counterexample:
  "Status (fst (retrieve_invoice invoice_ledger ''INV1'')) = ''0''
   \<and> (case accept_trade invoice_ledger [''INV1'', ''test_user2''] of
        (r, s) \<Rightarrow> r = Ok None \<and> Status (fst (retrieve_invoice s ''INV1'')) = ''2''
          \<and> (case offer_trade s [''INV1'', ''5.00'', ''test_user0''] of
               (r', s') \<Rightarrow> r' = Ok None \<and> Status (fst (retrieve_invoice s' ''INV1'')) = ''1''))"
  by code_simp

subsection \<open>The open trade offers\<close>

text \<open>
  C8. The claim: \<^verbatim>\<open>get_opening_trade_invoices\<close> returns the indexed invoices whose
  status is OFFERED, whoever asks. The function selects with \<^verbatim>\<open>inv.Status == 1\<close>,
  where \<^verbatim>\<open>Status\<close> is the string field of \<open>Invoice\<close> above, to which
  \<^verbatim>\<open>offer_trade\<close> assigns the string "1": Go has no comparison of a string with the
  integer constant 1, the function is not well-typed, and there is nothing of it to
  embed.
\<close>

end
